theory Spec2Isabelle
  imports Main "HOL-Library.Word"
begin

section \<open>The JNI bridge of sqlitecloud-kotlin (sqlitecloud.cpp)\<close>

text \<open>
  The file binds the native SQCloud client library to a JVM host.  The embedding has three
  parts: the host values the JNI hands to native code, the native library as a parameter
  (its header and implementation are not part of the repository), and the bridge functions
  themselves, one definition per function of sqlitecloud.cpp, in the order of the file.

  A bridge function is a function from the world before the call to its result and the world
  after it.  The world records, in order, every call the bridge makes into the native
  library or up into the host, and every block the bridge itself obtains with
  \<^verbatim>\<open>new\<close> or \<^verbatim>\<open>calloc\<close>.  The file contains no \<^verbatim>\<open>delete\<close> and no
  \<^verbatim>\<open>free\<close>, and no global or static variable.

  Inside a call of an exported function every reference the host passed is valid, and host
  objects are values.  The one reference and the one \<^verbatim>\<open>JNIEnv *\<close> the bridge keeps beyond
  a call, in the PubSubData, carry what decides whether they may still be used: the frame of
  the local reference and the identity of the \<^verbatim>\<open>JNIEnv *\<close>.  Two things of the JNI are
  not modelled: the buffers \<^verbatim>\<open>GetStringUTFChars\<close> and \<^verbatim>\<open>GetIntArrayElements\<close> hand
  out, which the file never releases, and a JNI function failing for lack of memory.
\<close>

subsection \<open>Machine and host values\<close>

type_synonym ptr = nat \<comment> \<open>a native address; 0 is \<^verbatim>\<open>nullptr\<close>\<close>
type_synonym jboolean = "8 word"
type_synonym jint = "32 word"
type_synonym jlong = "64 word"
type_synonym jdouble = "64 word" \<comment> \<open>the IEEE-754 bits; the bridge never computes with them\<close>
type_synonym jchar = "16 word" \<comment> \<open>a UTF-16 code unit\<close>
type_synonym byte = "8 word"
type_synonym uint32_t = "32 word"
type_synonym cstr = "byte list option" \<comment> \<open>\<^verbatim>\<open>const char *\<close>: the bytes before the NUL; \<open>None\<close> is NULL\<close>
type_synonym jstring = "jchar list option" \<comment> \<open>a reference to a java.lang.String; \<open>None\<close> is null\<close>

datatype jobject =
    JNull
  | DirectByteBuffer ptr jlong \<comment> \<open>a direct java.nio.ByteBuffer: address and capacity\<close>
  | JString "jchar list"
  | JInteger jint \<comment> \<open>a java.lang.Integer\<close>
  | JObject nat \<comment> \<open>any other host object, by identity\<close>

datatype jvalue =
    JVoid
  | JBooleanV jboolean
  | JIntV jint
  | JLongV jlong
  | JDoubleV jdouble
  | JObjectV jobject
  | JStringV jstring

text \<open>
  The receiver \<^verbatim>\<open>thiz\<close> of every bridge function, as the native method gets it: a local
  reference to an instance of the host class SQLiteCloudBridge.  The bridge reads the
  object's field \<^verbatim>\<open>connection\<close> (a ByteBuffer) and calls its method
  \<^verbatim>\<open>pubSubCallback\<close>.  A local reference belongs to the call of the native method it
  was created for, its frame, and is valid only until that call returns.
\<close>

record SQLiteCloudBridge =
  object_id :: nat
  connection :: jobject
  local_frame :: nat \<comment> \<open>the call this local reference belongs to\<close>

text \<open>
  Where a piece of native code runs, as far as the JNI cares: the \<^verbatim>\<open>JNIEnv *\<close> of the
  current thread, which no other thread may use, and the calls of native methods that
  thread is inside, whose local references are the valid ones.
\<close>

record jni_context =
  current_env :: ptr
  live_frames :: "nat list"

subsection \<open>The JNI functions the bridge calls\<close>

text \<open>
  GetDirectBufferAddress gives the address of a direct buffer and NULL for anything that is
  not one; GetDirectBufferCapacity gives the capacity and -1 for anything that is not one.
  The null checks after \<^verbatim>\<open>unwrapVM\<close> and \<^verbatim>\<open>getConnection\<close> in the source rely on
  the former.
\<close>

fun GetDirectBufferAddress :: "jobject \<Rightarrow> ptr" where
  "GetDirectBufferAddress (DirectByteBuffer address capacity) = address"
| "GetDirectBufferAddress _ = 0"

fun GetDirectBufferCapacity :: "jobject \<Rightarrow> jlong" where
  "GetDirectBufferCapacity (DirectByteBuffer address capacity) = capacity"
| "GetDirectBufferCapacity _ = - 1"

definition NewDirectByteBuffer :: "ptr \<Rightarrow> jlong \<Rightarrow> jobject" where
  "NewDirectByteBuffer address capacity = DirectByteBuffer address capacity"

text \<open>
  \<^verbatim>\<open>env->NewObject(FindClass("java/lang/Integer"), <init>(I)V, v)\<close> boxes a jint.
\<close>

definition NewInteger :: "jint \<Rightarrow> jobject" where
  "NewInteger v = JInteger v"

text \<open>
  GetStringUTFChars gives the string in the JNI's modified UTF-8: one byte for the code
  units 1 to 0x7F, two bytes for 0 and for 0x80 to 0x7FF, three bytes for the rest (a
  surrogate is encoded on its own).  GetStringLength counts UTF-16 code units.
\<close>

definition mutf8_unit :: "jchar \<Rightarrow> byte list" where
  "mutf8_unit c =
     (let n = unat c in
      if 1 \<le> n \<and> n \<le> 0x7F then [of_nat n]
      else if n \<le> 0x7FF then [of_nat (0xC0 + n div 64), of_nat (0x80 + n mod 64)]
      else [of_nat (0xE0 + n div 4096), of_nat (0x80 + (n div 64) mod 64),
            of_nat (0x80 + n mod 64)])"

definition GetStringUTFChars :: "jchar list \<Rightarrow> byte list" where
  "GetStringUTFChars s = concat (map mutf8_unit s)"

definition GetStringLength :: "jchar list \<Rightarrow> jint" where
  "GetStringLength s = of_nat (length s)"

text \<open>
  NewStringUTF reads modified UTF-8 up to the NUL and gives null for NULL.  The JNI leaves
  the result for ill-formed bytes open; this decoder stops at a truncated sequence.
\<close>

fun decode_mutf8 :: "byte list \<Rightarrow> jchar list" where
  "decode_mutf8 [] = []"
| "decode_mutf8 [b] = (if unat b < 0x80 then [of_nat (unat b)] else [])"
| "decode_mutf8 [b, b2] =
     (if unat b < 0x80 then of_nat (unat b) # decode_mutf8 [b2]
      else if unat b < 0xE0 then [of_nat ((unat b mod 32) * 64 + unat b2 mod 64)]
      else [])"
| "decode_mutf8 (b # b2 # b3 # bs) =
     (if unat b < 0x80 then of_nat (unat b) # decode_mutf8 (b2 # b3 # bs)
      else if unat b < 0xE0 then
        of_nat ((unat b mod 32) * 64 + unat b2 mod 64) # decode_mutf8 (b3 # bs)
      else
        of_nat ((unat b mod 16) * 4096 + (unat b2 mod 64) * 64 + unat b3 mod 64)
          # decode_mutf8 bs)"

fun NewStringUTF :: "cstr \<Rightarrow> jstring" where
  "NewStringUTF None = None"
| "NewStringUTF (Some bytes) = Some (decode_mutf8 bytes)"

text \<open>\<^verbatim>\<open>sizeof(void *)\<close> and \<^verbatim>\<open>sizeof(uint32_t)\<close> on the 64-bit ABIs.\<close>

definition sizeof_void_ptr :: nat where
  "sizeof_void_ptr = 8"

definition sizeof_uint32 :: nat where
  "sizeof_uint32 = 4"

subsection \<open>The native library as a parameter\<close>

text \<open>
  \<^verbatim>\<open>SQCloudConfig\<close>, with the fields the designated initialiser of
  \<^verbatim>\<open>doConnect\<close> names.
\<close>

record SQCloudConfig =
  username :: cstr
  password :: cstr
  database :: cstr
  timeout :: jint
  family :: jint
  compression :: bool
  sqlite_mode :: bool
  zero_text :: bool
  password_hashed :: bool
  nonlinearizable :: bool
  db_memory :: bool
  no_blob :: bool
  db_create :: bool
  max_data :: jint
  max_rows :: jint
  max_rowset :: jint
  tls_root_certificate :: cstr
  tls_certificate :: cstr
  tls_certificate_key :: cstr
  insecure :: bool

text \<open>An entry of the \<^verbatim>\<open>nativeParams\<close> array of \<^verbatim>\<open>executeArrayCommand\<close>.\<close>

datatype native_param =
    Unset \<comment> \<open>the zero \<^verbatim>\<open>calloc\<close> left\<close>
  | BufferAddress ptr
  | UTFChars cstr

datatype fnptr = PubSubCallbackFn \<comment> \<open>the address of the function \<^verbatim>\<open>pubSubCallback\<close>\<close>

text \<open>
  An argument of a native call, at the type the bridge's expression has; the conversion to
  the parameter's type belongs to the absent header.
\<close>

datatype arg =
    APtr ptr
  | AStr cstr
  | AInt jint
  | ALong jlong
  | ADouble jdouble
  | ABoolean jboolean
  | AUInt32 uint32_t
  | AConfig SQCloudConfig
  | AValues "native_param list"
  | ALengths "uint32_t list"
  | ATypes "jint list"
  | AFunction fnptr
  | AObject jobject \<comment> \<open>a host reference handed over as it is\<close>
  | AOutLen \<comment> \<open>the address of a local \<^verbatim>\<open>uint32_t\<close> that receives a length\<close>

datatype event =
    Native string "arg list" \<comment> \<open>a call of the native function of that name\<close>
  | CallVoidMethod SQLiteCloudBridge string string "jobject list"
      \<comment> \<open>receiver, method name, signature, arguments\<close>

text \<open>
  What the native library answers depends on the call and on everything that happened
  before it.  One field per type the bridge reads an answer at: a pointer, the string at a
  \<^verbatim>\<open>const char *\<close>, the truth value of a result the bridge tests or returns as a
  jboolean, the result as a jint, a jlong or a jdouble, and \<open>ret_len\<close>, the
  \<^verbatim>\<open>uint32_t\<close> a call returns or stores through its length out-parameter.
\<close>

record sqcloud =
  ret_ptr :: "event list \<Rightarrow> string \<Rightarrow> arg list \<Rightarrow> ptr"
  ret_str :: "event list \<Rightarrow> string \<Rightarrow> arg list \<Rightarrow> cstr"
  ret_bool :: "event list \<Rightarrow> string \<Rightarrow> arg list \<Rightarrow> bool"
  ret_int :: "event list \<Rightarrow> string \<Rightarrow> arg list \<Rightarrow> jint"
  ret_long :: "event list \<Rightarrow> string \<Rightarrow> arg list \<Rightarrow> jlong"
  ret_double :: "event list \<Rightarrow> string \<Rightarrow> arg list \<Rightarrow> jdouble"
  ret_len :: "event list \<Rightarrow> string \<Rightarrow> arg list \<Rightarrow> uint32_t"

subsection \<open>The world\<close>

text \<open>
  What is undefined behaviour in C or in the JNI is a fault here: a null array or a null
  string handed to a JNI function that dereferences it, a parameter that is no string where
  the code casts it to one, a read of \<^verbatim>\<open>paramTypes[i]\<close> beyond the array, a
  \<^verbatim>\<open>JNIEnv *\<close> used on a thread it does not belong to, a local reference used after
  its call has returned, and a callback datum that is no PubSubData.
\<close>

datatype fault =
    NullReference
  | NotAString
  | OutOfBounds
  | StaleJNIEnv
  | StaleLocalReference
  | WildPointer

record PubSubData =
  env :: ptr
  thiz :: SQLiteCloudBridge

datatype block =
    NewPubSubData PubSubData
  | Calloc uint32_t nat \<comment> \<open>\<^verbatim>\<open>calloc(nmemb, size)\<close>\<close>

record world =
  trace :: "event list" \<comment> \<open>calls made so far, oldest first\<close>
  heap :: "block list" \<comment> \<open>blocks the bridge allocated; block \<open>i\<close> lives at address \<open>i + 1\<close>\<close>

definition alloc :: "block \<Rightarrow> world \<Rightarrow> ptr \<times> world" where
  "alloc b w = (Suc (length (heap w)), w\<lparr>heap := heap w @ [b]\<rparr>)"

definition deref :: "world \<Rightarrow> ptr \<Rightarrow> block option" where
  "deref w p = (if 0 < p \<and> p \<le> length (heap w) then Some (heap w ! (p - 1)) else None)"

definition emit :: "event \<Rightarrow> world \<Rightarrow> world" where
  "emit e w = w\<lparr>trace := trace w @ [e]\<rparr>"

definition call_void ::
  "string \<Rightarrow> arg list \<Rightarrow> world \<Rightarrow> world" where
  "call_void f as w = emit (Native f as) w"

definition call_ptr ::
  "sqcloud \<Rightarrow> string \<Rightarrow> arg list \<Rightarrow> world \<Rightarrow>
   ptr \<times> world" where
  "call_ptr L f as w = (ret_ptr L (trace w) f as, emit (Native f as) w)"

definition call_str ::
  "sqcloud \<Rightarrow> string \<Rightarrow> arg list \<Rightarrow> world \<Rightarrow>
   cstr \<times> world" where
  "call_str L f as w = (ret_str L (trace w) f as, emit (Native f as) w)"

definition call_bool ::
  "sqcloud \<Rightarrow> string \<Rightarrow> arg list \<Rightarrow> world \<Rightarrow>
   bool \<times> world" where
  "call_bool L f as w = (ret_bool L (trace w) f as, emit (Native f as) w)"

definition call_int ::
  "sqcloud \<Rightarrow> string \<Rightarrow> arg list \<Rightarrow> world \<Rightarrow>
   jint \<times> world" where
  "call_int L f as w = (ret_int L (trace w) f as, emit (Native f as) w)"

definition call_long ::
  "sqcloud \<Rightarrow> string \<Rightarrow> arg list \<Rightarrow> world \<Rightarrow>
   jlong \<times> world" where
  "call_long L f as w = (ret_long L (trace w) f as, emit (Native f as) w)"

definition call_double ::
  "sqcloud \<Rightarrow> string \<Rightarrow> arg list \<Rightarrow> world \<Rightarrow>
   jdouble \<times> world" where
  "call_double L f as w = (ret_double L (trace w) f as, emit (Native f as) w)"

definition call_len ::
  "sqcloud \<Rightarrow> string \<Rightarrow> arg list \<Rightarrow> world \<Rightarrow>
   uint32_t \<times> world" where
  "call_len L f as w = (ret_len L (trace w) f as, emit (Native f as) w)"

text \<open>A call that returns a pointer and stores a length through \<^verbatim>\<open>uint32_t *len\<close>.\<close>

definition call_ptr_len ::
  "sqcloud \<Rightarrow> string \<Rightarrow> arg list \<Rightarrow> world \<Rightarrow> (ptr \<times> uint32_t) \<times> world" where
  "call_ptr_len L f as w =
     ((ret_ptr L (trace w) f as, ret_len L (trace w) f as), emit (Native f as) w)"

definition jboolean_of :: "bool \<Rightarrow> jboolean" where
  "jboolean_of b = (if b then 1 else 0)"

subsection \<open>Helpers of sqlitecloud.cpp\<close>

definition getConnection :: "SQLiteCloudBridge \<Rightarrow> ptr" where
  "getConnection this = GetDirectBufferAddress (connection this)"

fun cString :: "jstring \<Rightarrow> cstr" where
  "cString None = None"
| "cString (Some string) = Some (GetStringUTFChars string)"

definition wrapPointer :: "ptr \<Rightarrow> jobject" where
  "wrapPointer pointer =
     (if pointer = 0 then JNull else NewDirectByteBuffer pointer (of_nat sizeof_void_ptr))"

definition unwrapPointer :: "jobject \<Rightarrow> ptr" where
  "unwrapPointer wrappedPointer = GetDirectBufferAddress wrappedPointer"

definition unwrapResult :: "jobject \<Rightarrow> ptr" where
  "unwrapResult wrappedResult = unwrapPointer wrappedResult"

definition unwrapBlob :: "jobject \<Rightarrow> ptr" where
  "unwrapBlob wrappedBlob = unwrapPointer wrappedBlob"

definition unwrapVM :: "jobject \<Rightarrow> ptr" where
  "unwrapVM wrappedVM = unwrapPointer wrappedVM"

subsection \<open>Connection functions\<close>

definition static_cast_bool :: "jboolean \<Rightarrow> bool" where
  "static_cast_bool b = (b \<noteq> 0)"

definition doConnect ::
  "sqcloud \<Rightarrow> jstring \<Rightarrow> jint \<Rightarrow> jstring \<Rightarrow> jstring \<Rightarrow> jstring \<Rightarrow> jint \<Rightarrow> jint \<Rightarrow>
   jboolean \<Rightarrow> jboolean \<Rightarrow> jboolean \<Rightarrow> jboolean \<Rightarrow> jboolean \<Rightarrow> jboolean \<Rightarrow> jboolean \<Rightarrow> jboolean \<Rightarrow>
   jint \<Rightarrow> jint \<Rightarrow> jint \<Rightarrow> jstring \<Rightarrow> jstring \<Rightarrow> jstring \<Rightarrow> jboolean \<Rightarrow>
   world \<Rightarrow> jobject \<times> world" where
  "doConnect L hostname port a_username a_password a_database a_timeout a_family
     a_compression a_sqlite_mode a_zero_text a_password_hashed a_nonlinearizable a_db_memory
     a_no_blob a_db_create a_max_data a_max_rows a_max_rowset
     a_tls_root_certificate a_tls_certificate a_tls_certificate_key a_insecure w =
     (let config = \<lparr>
            username = cString a_username,
            password = cString a_password,
            database = (if a_database \<noteq> None then cString a_database else None),
            timeout = a_timeout,
            family = a_family,
            compression = static_cast_bool a_compression,
            sqlite_mode = static_cast_bool a_sqlite_mode,
            zero_text = static_cast_bool a_zero_text,
            password_hashed = static_cast_bool a_password_hashed,
            nonlinearizable = static_cast_bool a_nonlinearizable,
            db_memory = static_cast_bool a_db_memory,
            no_blob = static_cast_bool a_no_blob,
            db_create = static_cast_bool a_db_create,
            max_data = a_max_data,
            max_rows = a_max_rows,
            max_rowset = a_max_rowset,
            tls_root_certificate =
              (if a_tls_root_certificate \<noteq> None then cString a_tls_root_certificate else None),
            tls_certificate =
              (if a_tls_certificate \<noteq> None then cString a_tls_certificate else None),
            tls_certificate_key =
              (if a_tls_certificate_key \<noteq> None then cString a_tls_certificate_key else None),
            insecure = static_cast_bool a_insecure \<rparr>;
          (conn, w') =
            call_ptr L ''SQCloudConnect'' [AStr (cString hostname), AInt port, AConfig config] w
      in (wrapPointer conn, w'))"

definition doDisconnect :: "SQLiteCloudBridge \<Rightarrow> world \<Rightarrow> world" where
  "doDisconnect this w = call_void ''SQCloudDisconnect'' [APtr (getConnection this)] w"

definition isError ::
  "sqcloud \<Rightarrow> SQLiteCloudBridge \<Rightarrow> world \<Rightarrow>
   jboolean \<times> world" where
  "isError L this w =
     (let (r, w') = call_bool L ''SQCloudIsError'' [APtr (getConnection this)] w
      in (jboolean_of r, w'))"

definition isSQLiteError ::
  "sqcloud \<Rightarrow> SQLiteCloudBridge \<Rightarrow> world \<Rightarrow>
   jboolean \<times> world" where
  "isSQLiteError L this w =
     (let (r, w') = call_bool L ''SQCloudIsSQLiteError'' [APtr (getConnection this)] w
      in (jboolean_of r, w'))"

definition errorCode ::
  "sqcloud \<Rightarrow> SQLiteCloudBridge \<Rightarrow> world \<Rightarrow>
   jobject \<times> world" where
  "errorCode L this w =
     (let conn = getConnection this;
          (is_error, w1) = call_bool L ''SQCloudIsError'' [APtr conn] w
      in if \<not> is_error then (JNull, w1)
         else let (code, w2) = call_int L ''SQCloudErrorCode'' [APtr conn] w1
              in (NewInteger code, w2))"

definition errorMessage ::
  "sqcloud \<Rightarrow> SQLiteCloudBridge \<Rightarrow> world \<Rightarrow>
   jstring \<times> world" where
  "errorMessage L this w =
     (let conn = getConnection this;
          (is_error, w1) = call_bool L ''SQCloudIsError'' [APtr conn] w
      in if \<not> is_error then (None, w1)
         else let (msg, w2) = call_str L ''SQCloudErrorMsg'' [APtr conn] w1
              in (NewStringUTF msg, w2))"

definition extendedErrorCode ::
  "sqcloud \<Rightarrow> SQLiteCloudBridge \<Rightarrow> world \<Rightarrow> jobject \<times> world" where
  "extendedErrorCode L this w =
     (let conn = getConnection this;
          (is_error, w1) = call_bool L ''SQCloudIsError'' [APtr conn] w
      in if \<not> is_error then (JNull, w1)
         else let (code, w2) = call_int L ''SQCloudExtendedErrorCode'' [APtr conn] w1
              in (NewInteger code, w2))"

definition errorOffset ::
  "sqcloud \<Rightarrow> SQLiteCloudBridge \<Rightarrow> world \<Rightarrow>
   jobject \<times> world" where
  "errorOffset L this w =
     (let conn = getConnection this;
          (is_error, w1) = call_bool L ''SQCloudIsError'' [APtr conn] w
      in if \<not> is_error then (JNull, w1)
         else let (off, w2) = call_int L ''SQCloudErrorOffset'' [APtr conn] w1
              in (NewInteger off, w2))"

definition vmErrorCode ::
  "sqcloud \<Rightarrow> jobject \<Rightarrow> world \<Rightarrow> jobject \<times> world" where
  "vmErrorCode L wrappedVM w =
     (let vm = unwrapVM wrappedVM
      in if vm = 0 then (JNull, w)
         else let (code, w') = call_int L ''SQCloudVMErrorCode'' [APtr vm] w
              in (NewInteger code, w'))"

definition vmErrorMessage ::
  "sqcloud \<Rightarrow> jobject \<Rightarrow> world \<Rightarrow> jstring \<times> world" where
  "vmErrorMessage L wrappedVM w =
     (let vm = unwrapVM wrappedVM
      in if vm = 0 then (None, w)
         else let (msg, w') = call_str L ''SQCloudVMErrorMsg'' [APtr vm] w
              in (NewStringUTF msg, w'))"

text \<open>
  The trampoline the native library calls on an event, in the context the library calls it
  in.  It takes \<^verbatim>\<open>env\<close> and \<^verbatim>\<open>thiz\<close> from the PubSubData and makes every JNI
  call through that \<^verbatim>\<open>env\<close>: \<^verbatim>\<open>NewDirectByteBuffer\<close> in \<open>wrapPointer\<close>,
  \<^verbatim>\<open>GetObjectClass\<close>, \<^verbatim>\<open>GetMethodID\<close> and \<^verbatim>\<open>CallVoidMethod\<close>, the last
  three on the stored \<^verbatim>\<open>thiz\<close>.  The stored \<^verbatim>\<open>env\<close> is usable only on the thread it
  belongs to, and the stored \<^verbatim>\<open>thiz\<close> only while its frame is live; the file contains no
  \<^verbatim>\<open>NewGlobalRef\<close>, \<^verbatim>\<open>GetJavaVM\<close> or \<^verbatim>\<open>AttachCurrentThread\<close>.
\<close>

definition pubSubCallback ::
  "jni_context \<Rightarrow> ptr \<Rightarrow> ptr \<Rightarrow> ptr \<Rightarrow> world \<Rightarrow> fault + world" where
  "pubSubCallback ctx conn result data w =
     (case deref w data of
        Some (NewPubSubData pubSubData) \<Rightarrow>
          if env pubSubData \<noteq> current_env ctx then Inl StaleJNIEnv
          else if local_frame (thiz pubSubData) \<notin> set (live_frames ctx)
          then Inl StaleLocalReference
          else
            (let wrappedResult = wrapPointer result
             in Inr (emit (CallVoidMethod (thiz pubSubData) ''pubSubCallback''
                             ''(Ljava/nio/ByteBuffer;)V'' [wrappedResult]) w))
      | _ \<Rightarrow> Inl WildPointer)"

definition setPubSubCallback ::
  "ptr \<Rightarrow> SQLiteCloudBridge \<Rightarrow> world \<Rightarrow> world" where
  "setPubSubCallback jni_env this w =
     (let (data, w1) = alloc (NewPubSubData \<lparr> env = jni_env, thiz = this \<rparr>) w
      in call_void ''SQCloudSetPubSubCallback''
           [APtr (getConnection this), AFunction PubSubCallbackFn, APtr data] w1)"

definition setPubSubOnly ::
  "sqcloud \<Rightarrow> SQLiteCloudBridge \<Rightarrow> world \<Rightarrow>
   jobject \<times> world" where
  "setPubSubOnly L this w =
     (let (result, w') = call_ptr L ''SQCloudSetPubSubOnly'' [APtr (getConnection this)] w
      in (wrapPointer result, w'))"

definition getClientUUID ::
  "sqcloud \<Rightarrow> SQLiteCloudBridge \<Rightarrow> world \<Rightarrow>
   jstring \<times> world" where
  "getClientUUID L this w =
     (let conn = getConnection this
      in if conn = 0 then (None, w)
         else let (uuid, w') = call_str L ''SQCloudUUID'' [APtr conn] w
              in (NewStringUTF uuid, w'))"

definition executeCommand ::
  "sqcloud \<Rightarrow> SQLiteCloudBridge \<Rightarrow> jstring \<Rightarrow> world \<Rightarrow> jobject \<times> world" where
  "executeCommand L this query w =
     (let conn = getConnection this;
          (result, w') = call_ptr L ''SQCloudExec'' [APtr conn, AStr (cString query)] w
      in (wrapPointer result, w'))"

subsection \<open>Array commands\<close>

definition GetObjectArrayElement :: "jobject list \<Rightarrow> nat \<Rightarrow> jobject" where
  "GetObjectArrayElement array i = (if i < length array then array ! i else JNull)"

text \<open>The loop of \<^verbatim>\<open>executeArrayCommand\<close>, from index \<open>i\<close> on.\<close>

function fillParams ::
  "jint \<Rightarrow> jobject list \<Rightarrow> jint list \<Rightarrow> uint32_t \<Rightarrow> nat \<Rightarrow> native_param list \<Rightarrow> uint32_t list \<Rightarrow>
   fault + (native_param list \<times> uint32_t list)" where
  "fillParams VALUE_BLOB params paramTypes paramCount i nativeParams paramLengths =
     (if i < unat paramCount then
        (if length paramTypes \<le> i then Inl OutOfBounds
         else
           let param = GetObjectArrayElement params i in
           if paramTypes ! i = VALUE_BLOB then
             fillParams VALUE_BLOB params paramTypes paramCount (Suc i)
               (nativeParams[i := BufferAddress (GetDirectBufferAddress param)])
               (paramLengths[i := ucast (GetDirectBufferCapacity param)])
           else
             (case param of
                JNull \<Rightarrow> Inl NullReference
              | JString stringParam \<Rightarrow>
                  fillParams VALUE_BLOB params paramTypes paramCount (Suc i)
                    (nativeParams[i := UTFChars (cString (Some stringParam))])
                    (paramLengths[i := GetStringLength stringParam])
              | _ \<Rightarrow> Inl NotAString))
      else Inr (nativeParams, paramLengths))"
  by pat_completeness auto
termination
  by (relation "measure (\<lambda>(VALUE_BLOB, params, paramTypes, paramCount, i, nativeParams,
         paramLengths). unat paramCount - i)") auto

declare fillParams.simps [simp del]

definition executeArrayCommand ::
  "jint \<Rightarrow> sqcloud \<Rightarrow> SQLiteCloudBridge \<Rightarrow> jstring \<Rightarrow> jobject list option \<Rightarrow> jint list option \<Rightarrow>
   world \<Rightarrow> fault + (jobject \<times> world)" where
  "executeArrayCommand VALUE_BLOB L this query params param_types w =
     (let conn = getConnection this;
          command = cString query
      in (case params of
            None \<Rightarrow> Inl NullReference
          | Some ps \<Rightarrow>
              (let paramCount = (of_nat (length ps) :: uint32_t);
                   (nativeParams0, w1) = alloc (Calloc paramCount sizeof_void_ptr) w;
                   (paramLengths0, w2) = alloc (Calloc paramCount sizeof_uint32) w1
               in (case param_types of
                     None \<Rightarrow> Inl NullReference
                   | Some paramTypes \<Rightarrow>
                       (case fillParams VALUE_BLOB ps paramTypes paramCount 0
                               (replicate (unat paramCount) Unset)
                               (replicate (unat paramCount) 0) of
                          Inl f \<Rightarrow> Inl f
                        | Inr (nativeParams, paramLengths) \<Rightarrow>
                            (let (result, w3) =
                                   call_ptr L ''SQCloudExecArray''
                                     [APtr conn, AStr command, AValues nativeParams,
                                      ALengths paramLengths, ATypes paramTypes,
                                      AUInt32 paramCount] w2
                             in Inr (wrapPointer result, w3)))))))"

subsection \<open>Results, arrays and rowsets\<close>

definition freeResult :: "jobject \<Rightarrow> world \<Rightarrow> world" where
  "freeResult wrappedResult w =
     call_void ''SQCloudResultFree'' [APtr (unwrapResult wrappedResult)] w"

definition resultType ::
  "sqcloud \<Rightarrow> jobject \<Rightarrow> world \<Rightarrow> jint \<times> world" where
  "resultType L wrappedResult w =
     (let (r, w') = call_int L ''SQCloudResultType'' [APtr (unwrapResult wrappedResult)] w
      in (r, w'))"

definition intResult ::
  "sqcloud \<Rightarrow> jobject \<Rightarrow> world \<Rightarrow> jint \<times> world" where
  "intResult L wrappedResult w =
     (let (r, w') = call_int L ''SQCloudResultInt32'' [APtr (unwrapResult wrappedResult)] w
      in (r, w'))"

definition longResult ::
  "sqcloud \<Rightarrow> jobject \<Rightarrow> world \<Rightarrow> jlong \<times> world" where
  "longResult L wrappedResult w =
     (let (r, w') = call_long L ''SQCloudResultInt64'' [APtr (unwrapResult wrappedResult)] w
      in (r, w'))"

definition doubleResult ::
  "sqcloud \<Rightarrow> jobject \<Rightarrow> world \<Rightarrow> jdouble \<times> world" where
  "doubleResult L wrappedResult w =
     (let (r, w') = call_double L ''SQCloudResultDouble'' [APtr (unwrapResult wrappedResult)] w
      in (r, w'))"

definition stringResult ::
  "sqcloud \<Rightarrow> jobject \<Rightarrow> world \<Rightarrow> jstring \<times> world" where
  "stringResult L wrappedResult w =
     (let (r, w') = call_str L ''SQCloudResultBuffer'' [APtr (unwrapResult wrappedResult)] w
      in (NewStringUTF r, w'))"

definition bufferResult ::
  "sqcloud \<Rightarrow> jobject \<Rightarrow> world \<Rightarrow> jobject \<times> world" where
  "bufferResult L wrappedResult w =
     (let result = unwrapResult wrappedResult;
          (buffer, w1) = call_ptr L ''SQCloudResultBuffer'' [APtr result] w;
          (len, w2) = call_len L ''SQCloudResultLen'' [APtr result] w1
      in (NewDirectByteBuffer buffer (ucast len), w2))"

definition arrayResultSize ::
  "sqcloud \<Rightarrow> jobject \<Rightarrow> world \<Rightarrow> jint \<times> world" where
  "arrayResultSize L wrappedResult w =
     (let (r, w') = call_int L ''SQCloudArrayCount'' [APtr (unwrapResult wrappedResult)] w
      in (r, w'))"

definition arrayResultValueType ::
  "sqcloud \<Rightarrow> jobject \<Rightarrow> jint \<Rightarrow> world \<Rightarrow>
   jint \<times> world" where
  "arrayResultValueType L wrappedResult index w =
     (let (r, w') =
            call_int L ''SQCloudArrayValueType''
              [APtr (unwrapResult wrappedResult), AInt index] w
      in (r, w'))"

definition arrayResultLongValue ::
  "sqcloud \<Rightarrow> jobject \<Rightarrow> jint \<Rightarrow> world \<Rightarrow>
   jlong \<times> world" where
  "arrayResultLongValue L wrappedResult index w =
     (let (r, w') =
            call_long L ''SQCloudArrayInt64Value''
              [APtr (unwrapResult wrappedResult), AInt index] w
      in (r, w'))"

definition arrayResultDoubleValue ::
  "sqcloud \<Rightarrow> jobject \<Rightarrow> jint \<Rightarrow> world \<Rightarrow>
   jdouble \<times> world" where
  "arrayResultDoubleValue L wrappedResult index w =
     (let (r, w') =
            call_double L ''SQCloudArrayDoubleValue''
              [APtr (unwrapResult wrappedResult), AInt index] w
      in (r, w'))"

definition arrayResultStringValue ::
  "sqcloud \<Rightarrow> jobject \<Rightarrow> jint \<Rightarrow> world \<Rightarrow>
   jstring \<times> world" where
  "arrayResultStringValue L wrappedResult index w =
     (let (r, w') =
            call_str L ''SQCloudArrayValue''
              [APtr (unwrapResult wrappedResult), AInt index, AOutLen] w
      in (NewStringUTF r, w'))"

definition arrayResultBufferValue ::
  "sqcloud \<Rightarrow> jobject \<Rightarrow> jint \<Rightarrow> world \<Rightarrow>
   jobject \<times> world" where
  "arrayResultBufferValue L wrappedResult index w =
     (let (r, w') =
            call_ptr_len L ''SQCloudArrayValue''
              [APtr (unwrapResult wrappedResult), AInt index, AOutLen] w
      in (NewDirectByteBuffer (fst r) (ucast (snd r)), w'))"

definition rowsetResultRowCount ::
  "sqcloud \<Rightarrow> jobject \<Rightarrow> world \<Rightarrow> jint \<times> world" where
  "rowsetResultRowCount L wrappedResult w =
     (let (r, w') = call_int L ''SQCloudRowsetRows'' [APtr (unwrapResult wrappedResult)] w
      in (r, w'))"

definition rowsetResultColumnCount ::
  "sqcloud \<Rightarrow> jobject \<Rightarrow> world \<Rightarrow> jint \<times> world" where
  "rowsetResultColumnCount L wrappedResult w =
     (let (r, w') = call_int L ''SQCloudRowsetCols'' [APtr (unwrapResult wrappedResult)] w
      in (r, w'))"

definition rowsetResultColumnName ::
  "sqcloud \<Rightarrow> jobject \<Rightarrow> jint \<Rightarrow> world \<Rightarrow>
   jstring \<times> world" where
  "rowsetResultColumnName L wrappedResult column w =
     (let (r, w') =
            call_str L ''SQCloudRowsetColumnName''
              [APtr (unwrapResult wrappedResult), AInt column, AOutLen] w
      in (NewStringUTF r, w'))"

definition rowsetResultValueType ::
  "sqcloud \<Rightarrow> jobject \<Rightarrow> jint \<Rightarrow> jint \<Rightarrow>
   world \<Rightarrow> jint \<times> world" where
  "rowsetResultValueType L wrappedResult row column w =
     (let (r, w') =
            call_int L ''SQCloudRowsetValueType''
              [APtr (unwrapResult wrappedResult), AInt row, AInt column] w
      in (r, w'))"

definition rowsetResultLongValue ::
  "sqcloud \<Rightarrow> jobject \<Rightarrow> jint \<Rightarrow> jint \<Rightarrow>
   world \<Rightarrow> jlong \<times> world" where
  "rowsetResultLongValue L wrappedResult row column w =
     (let (r, w') =
            call_long L ''SQCloudRowsetInt64Value''
              [APtr (unwrapResult wrappedResult), AInt row, AInt column] w
      in (r, w'))"

definition rowsetResultDoubleValue ::
  "sqcloud \<Rightarrow> jobject \<Rightarrow> jint \<Rightarrow> jint \<Rightarrow>
   world \<Rightarrow> jdouble \<times> world" where
  "rowsetResultDoubleValue L wrappedResult row column w =
     (let (r, w') =
            call_double L ''SQCloudRowsetDoubleValue''
              [APtr (unwrapResult wrappedResult), AInt row, AInt column] w
      in (r, w'))"

definition rowsetResultStringValue ::
  "sqcloud \<Rightarrow> jobject \<Rightarrow> jint \<Rightarrow> jint \<Rightarrow>
   world \<Rightarrow> jstring \<times> world" where
  "rowsetResultStringValue L wrappedResult row column w =
     (let (r, w') =
            call_str L ''SQCloudRowsetValue''
              [APtr (unwrapResult wrappedResult), AInt row, AInt column, AOutLen] w
      in (NewStringUTF r, w'))"

definition rowsetResultBufferValue ::
  "sqcloud \<Rightarrow> jobject \<Rightarrow> jint \<Rightarrow> jint \<Rightarrow>
   world \<Rightarrow> jobject \<times> world" where
  "rowsetResultBufferValue L wrappedResult row column w =
     (let (r, w') =
            call_ptr_len L ''SQCloudRowsetValue''
              [APtr (unwrapResult wrappedResult), AInt row, AInt column, AOutLen] w
      in (NewDirectByteBuffer (fst r) (ucast (snd r)), w'))"

subsection \<open>Database transfer and blobs\<close>

definition uploadDatabase ::
  "sqcloud \<Rightarrow> SQLiteCloudBridge \<Rightarrow> jstring \<Rightarrow>
   jstring \<Rightarrow> jobject \<Rightarrow> jlong \<Rightarrow> jobject \<Rightarrow>
   world \<Rightarrow> jboolean \<times> world" where
  "uploadDatabase L this name encryption_key data_handler file_size callback w =
     (let (r, w') =
            call_bool L ''SQCloudUploadDatabase''
              [APtr (getConnection this), AStr (cString name), AStr (cString encryption_key),
               AObject data_handler, ALong file_size, AObject callback] w
      in (jboolean_of r, w'))"

definition downloadDatabase ::
  "sqcloud \<Rightarrow> SQLiteCloudBridge \<Rightarrow> jstring \<Rightarrow>
   jobject \<Rightarrow> jobject \<Rightarrow> world \<Rightarrow> jboolean \<times> world" where
  "downloadDatabase L this name data_handler callback w =
     (let (r, w') =
            call_bool L ''SQCloudDownloadDatabase''
              [APtr (getConnection this), AStr (cString name), AObject data_handler,
               AObject callback] w
      in (jboolean_of r, w'))"

definition openBlob ::
  "sqcloud \<Rightarrow> SQLiteCloudBridge \<Rightarrow> jstring \<Rightarrow>
   jstring \<Rightarrow> jstring \<Rightarrow> jlong \<Rightarrow> jboolean \<Rightarrow>
   world \<Rightarrow> jobject \<times> world" where
  "openBlob L this schema table column row_id read_write w =
     (let (r, w') =
            call_ptr L ''SQCloudBlobOpen''
              [APtr (getConnection this), AStr (cString schema), AStr (cString table),
               AStr (cString column), ALong row_id, ABoolean read_write] w
      in (wrapPointer r, w'))"

definition reopenBlob ::
  "sqcloud \<Rightarrow> jobject \<Rightarrow> jlong \<Rightarrow> world \<Rightarrow>
   jboolean \<times> world" where
  "reopenBlob L handle row_id w =
     (let (r, w') = call_bool L ''SQCloudBlobReOpen'' [APtr (unwrapBlob handle), ALong row_id] w
      in (jboolean_of r, w'))"

definition closeBlob ::
  "sqcloud \<Rightarrow> jobject \<Rightarrow> world \<Rightarrow> jboolean \<times> world" where
  "closeBlob L handle w =
     (let (r, w') = call_bool L ''SQCloudBlobClose'' [APtr (unwrapBlob handle)] w
      in (jboolean_of r, w'))"

definition blobFieldSize ::
  "sqcloud \<Rightarrow> jobject \<Rightarrow> world \<Rightarrow> jint \<times> world" where
  "blobFieldSize L handle w =
     (let (r, w') = call_int L ''SQCloudBlobBytes'' [APtr (unwrapBlob handle)] w
      in (r, w'))"

definition readBlob ::
  "sqcloud \<Rightarrow> jobject \<Rightarrow> jobject \<Rightarrow> world \<Rightarrow>
   jint \<times> world" where
  "readBlob L handle buffer w =
     (let (r, w') =
            call_int L ''SQCloudBlobRead''
              [APtr (unwrapBlob handle), APtr (GetDirectBufferAddress buffer),
               ALong (GetDirectBufferCapacity buffer), AInt 0] w
      in (r, w'))"

definition writeBlob ::
  "sqcloud \<Rightarrow> jobject \<Rightarrow> jobject \<Rightarrow> world \<Rightarrow>
   jint \<times> world" where
  "writeBlob L handle buffer w =
     (let (r, w') =
            call_int L ''SQCloudBlobWrite''
              [APtr (unwrapBlob handle), APtr (GetDirectBufferAddress buffer),
               ALong (GetDirectBufferCapacity buffer), AInt 0] w
      in (r, w'))"

subsection \<open>Prepared statements\<close>

definition vmBindInt ::
  "sqcloud \<Rightarrow> jobject \<Rightarrow> jint \<Rightarrow> jint \<Rightarrow>
   world \<Rightarrow> jboolean \<times> world" where
  "vmBindInt L wrappedVM row_index v w =
     (let (r, w') =
            call_bool L ''SQCloudVMBindInt''
              [APtr (unwrapVM wrappedVM), AInt row_index, AInt v] w
      in (jboolean_of r, w'))"

definition vmBindInt64 ::
  "sqcloud \<Rightarrow> jobject \<Rightarrow> jint \<Rightarrow> jlong \<Rightarrow>
   world \<Rightarrow> jboolean \<times> world" where
  "vmBindInt64 L wrappedVM row_index v w =
     (let (r, w') =
            call_bool L ''SQCloudVMBindInt64''
              [APtr (unwrapVM wrappedVM), AInt row_index, ALong v] w
      in (jboolean_of r, w'))"

definition vmBindDouble ::
  "sqcloud \<Rightarrow> jobject \<Rightarrow> jint \<Rightarrow> jdouble \<Rightarrow>
   world \<Rightarrow> jboolean \<times> world" where
  "vmBindDouble L wrappedVM row_index v w =
     (let (r, w') =
            call_bool L ''SQCloudVMBindDouble''
              [APtr (unwrapVM wrappedVM), AInt row_index, ADouble v] w
      in (jboolean_of r, w'))"

definition vmBindText ::
  "sqcloud \<Rightarrow> jobject \<Rightarrow> jint \<Rightarrow> jstring \<Rightarrow>
   jint \<Rightarrow> world \<Rightarrow> jboolean \<times> world" where
  "vmBindText L wrappedVM row_index v byteSize w =
     (let (r, w') =
            call_bool L ''SQCloudVMBindText''
              [APtr (unwrapVM wrappedVM), AInt row_index, AStr (cString v), AInt byteSize] w
      in (jboolean_of r, w'))"

definition vmBindBlob ::
  "sqcloud \<Rightarrow> jobject \<Rightarrow> jint \<Rightarrow> jobject \<Rightarrow>
   world \<Rightarrow> jboolean \<times> world" where
  "vmBindBlob L wrappedVM row_index v w =
     (let (r, w') =
            call_bool L ''SQCloudVMBindBlob''
              [APtr (unwrapVM wrappedVM), AInt row_index, APtr (unwrapPointer v),
               ALong (GetDirectBufferCapacity v)] w
      in (jboolean_of r, w'))"

definition vmBindZeroBlob ::
  "sqcloud \<Rightarrow> jobject \<Rightarrow> jint \<Rightarrow> world \<Rightarrow>
   jboolean \<times> world" where
  "vmBindZeroBlob L wrappedVM row_index w =
     (let (r, w') =
            call_bool L ''SQCloudVMBindZeroBlob''
              [APtr (unwrapVM wrappedVM), AInt row_index, AInt 0] w
      in (jboolean_of r, w'))"

definition vmBindNull ::
  "sqcloud \<Rightarrow> jobject \<Rightarrow> jint \<Rightarrow> world \<Rightarrow>
   jboolean \<times> world" where
  "vmBindNull L wrappedVM row_index w =
     (let (r, w') = call_bool L ''SQCloudVMBindNull'' [APtr (unwrapVM wrappedVM), AInt row_index] w
      in (jboolean_of r, w'))"

definition vmCompile ::
  "sqcloud \<Rightarrow> SQLiteCloudBridge \<Rightarrow> jstring \<Rightarrow>
   world \<Rightarrow> jobject \<times> world" where
  "vmCompile L this query w =
     (let (r, w') =
            call_ptr L ''SQCloudVMCompile''
              [APtr (getConnection this), AStr (cString query), AInt (- 1), APtr 0] w
      in (wrapPointer r, w'))"

definition vmStep ::
  "sqcloud \<Rightarrow> jobject \<Rightarrow> world \<Rightarrow> jint \<times> world" where
  "vmStep L wrappedVM w =
     (let (r, w') = call_int L ''SQCloudVMStep'' [APtr (unwrapVM wrappedVM)] w
      in (r, w'))"

definition vmClose ::
  "sqcloud \<Rightarrow> jobject \<Rightarrow> world \<Rightarrow> jboolean \<times> world" where
  "vmClose L wrappedVM w =
     (let (r, w') = call_bool L ''SQCloudVMClose'' [APtr (unwrapVM wrappedVM)] w
      in (jboolean_of r, w'))"

definition vmColumnCount ::
  "sqcloud \<Rightarrow> jobject \<Rightarrow> world \<Rightarrow> jint \<times> world" where
  "vmColumnCount L wrappedVM w =
     (let (r, w') = call_int L ''SQCloudVMColumnCount'' [APtr (unwrapVM wrappedVM)] w
      in (r, w'))"

definition vmLastRowID ::
  "sqcloud \<Rightarrow> jobject \<Rightarrow> world \<Rightarrow> jlong \<times> world" where
  "vmLastRowID L wrappedVM w =
     (let (r, w') = call_long L ''SQCloudVMLastRowID'' [APtr (unwrapVM wrappedVM)] w
      in (r, w'))"

definition vmChanges ::
  "sqcloud \<Rightarrow> jobject \<Rightarrow> world \<Rightarrow> jlong \<times> world" where
  "vmChanges L wrappedVM w =
     (let (r, w') = call_long L ''SQCloudVMChanges'' [APtr (unwrapVM wrappedVM)] w
      in (r, w'))"

definition vmTotalChanges ::
  "sqcloud \<Rightarrow> jobject \<Rightarrow> world \<Rightarrow> jlong \<times> world" where
  "vmTotalChanges L wrappedVM w =
     (let (r, w') = call_long L ''SQCloudVMTotalChanges'' [APtr (unwrapVM wrappedVM)] w
      in (r, w'))"

definition vmIsReadOnly ::
  "sqcloud \<Rightarrow> jobject \<Rightarrow> world \<Rightarrow> jboolean \<times> world" where
  "vmIsReadOnly L wrappedVM w =
     (let (r, w') = call_bool L ''SQCloudVMIsReadOnly'' [APtr (unwrapVM wrappedVM)] w
      in (jboolean_of r, w'))"

definition vmIsExplain ::
  "sqcloud \<Rightarrow> jobject \<Rightarrow> world \<Rightarrow> jint \<times> world" where
  "vmIsExplain L wrappedVM w =
     (let (r, w') = call_int L ''SQCloudVMIsExplain'' [APtr (unwrapVM wrappedVM)] w
      in (r, w'))"

definition vmIsFinalized ::
  "sqcloud \<Rightarrow> jobject \<Rightarrow> world \<Rightarrow> jboolean \<times> world" where
  "vmIsFinalized L wrappedVM w =
     (let (r, w') = call_bool L ''SQCloudVMIsFinalized'' [APtr (unwrapVM wrappedVM)] w
      in (jboolean_of r, w'))"

definition vmBindParameterCount ::
  "sqcloud \<Rightarrow> jobject \<Rightarrow> world \<Rightarrow> jint \<times> world" where
  "vmBindParameterCount L wrappedVM w =
     (let (r, w') = call_int L ''SQCloudVMBindParameterCount'' [APtr (unwrapVM wrappedVM)] w
      in (r, w'))"

definition vmBindParameterIndex ::
  "sqcloud \<Rightarrow> jobject \<Rightarrow> jstring \<Rightarrow> world \<Rightarrow>
   jint \<times> world" where
  "vmBindParameterIndex L wrappedVM name w =
     (let (r, w') =
            call_int L ''SQCloudVMBindParameterIndex''
              [APtr (unwrapVM wrappedVM), AStr (cString name)] w
      in (r, w'))"

definition vmBindParameterName ::
  "sqcloud \<Rightarrow> jobject \<Rightarrow> jint \<Rightarrow> world \<Rightarrow>
   jstring \<times> world" where
  "vmBindParameterName L wrappedVM index w =
     (let (r, w') =
            call_str L ''SQCloudVMBindParameterName''
              [APtr (unwrapVM wrappedVM), AInt index] w
      in (NewStringUTF r, w'))"

definition vmColumnType ::
  "sqcloud \<Rightarrow> jobject \<Rightarrow> jint \<Rightarrow> world \<Rightarrow>
   jint \<times> world" where
  "vmColumnType L wrappedVM index w =
     (let (r, w') = call_int L ''SQCloudVMColumnType'' [APtr (unwrapVM wrappedVM), AInt index] w
      in (r, w'))"

definition vmResult ::
  "sqcloud \<Rightarrow> jobject \<Rightarrow> world \<Rightarrow> jobject \<times> world" where
  "vmResult L wrappedVM w =
     (let (r, w') = call_ptr L ''SQCloudVMResult'' [APtr (unwrapVM wrappedVM)] w
      in (wrapPointer r, w'))"

definition rowsetColumnName ::
  "sqcloud \<Rightarrow> jobject \<Rightarrow> jint \<Rightarrow> world \<Rightarrow>
   jstring \<times> world" where
  "rowsetColumnName L wrappedResult index w =
     (let (r, w') =
            call_str L ''SQCloudRowsetColumnName''
              [APtr (unwrapResult wrappedResult), AInt index, AOutLen] w
      in (NewStringUTF r, w'))"

definition vmColumnInt64 ::
  "sqcloud \<Rightarrow> jobject \<Rightarrow> jint \<Rightarrow> world \<Rightarrow>
   jlong \<times> world" where
  "vmColumnInt64 L wrappedVM index w =
     (let (r, w') = call_long L ''SQCloudVMColumnInt64'' [APtr (unwrapVM wrappedVM), AInt index] w
      in (r, w'))"

definition vmColumnDouble ::
  "sqcloud \<Rightarrow> jobject \<Rightarrow> jint \<Rightarrow> world \<Rightarrow>
   jdouble \<times> world" where
  "vmColumnDouble L wrappedVM index w =
     (let (r, w') =
            call_double L ''SQCloudVMColumnDouble''
              [APtr (unwrapVM wrappedVM), AInt index] w
      in (r, w'))"

definition vmColumnText ::
  "sqcloud \<Rightarrow> jobject \<Rightarrow> jint \<Rightarrow> world \<Rightarrow>
   jstring \<times> world" where
  "vmColumnText L wrappedVM index w =
     (let (r, w') =
            call_str L ''SQCloudVMColumnText''
              [APtr (unwrapVM wrappedVM), AInt index, AOutLen] w
      in (NewStringUTF r, w'))"

definition vmColumnBlob ::
  "sqcloud \<Rightarrow> jobject \<Rightarrow> jint \<Rightarrow> world \<Rightarrow>
   jobject \<times> world" where
  "vmColumnBlob L wrappedVM index w =
     (let (r, w') =
            call_ptr_len L ''SQCloudVMColumnBlob''
              [APtr (unwrapVM wrappedVM), AInt index, AOutLen] w
      in (NewDirectByteBuffer (fst r) (ucast (snd r)), w'))"

subsection \<open>The exported functions as one interface\<close>

text \<open>
  One constructor per exported function \<^verbatim>\<open>Java_io_sqlitecloud_SQLiteCloudBridge_*\<close>,
  with the arguments the host passes after \<^verbatim>\<open>env\<close> and \<^verbatim>\<open>thiz\<close>; in four
  groups, by the handle the function works on.
\<close>

datatype connection_op =
    DoConnect jstring jint jstring jstring jstring jint jint
      jboolean jboolean jboolean jboolean jboolean jboolean jboolean jboolean
      jint jint jint jstring jstring jstring jboolean
  | DoDisconnect
  | IsError
  | IsSQLiteError
  | ErrorCode
  | ErrorMessage
  | ExtendedErrorCode
  | ErrorOffset
  | SetPubSubCallback
  | SetPubSubOnly
  | GetClientUUID
  | ExecuteCommand jstring
  | ExecuteArrayCommand jstring "jobject list option" "jint list option"
  | UploadDatabase jstring jstring jobject jlong jobject
  | DownloadDatabase jstring jobject jobject
  | OpenBlob jstring jstring jstring jlong jboolean
  | VmCompile jstring

datatype result_op =
    FreeResult jobject
  | ResultType jobject
  | IntResult jobject
  | LongResult jobject
  | DoubleResult jobject
  | StringResult jobject
  | BufferResult jobject
  | ArrayResultSize jobject
  | ArrayResultValueType jobject jint
  | ArrayResultLongValue jobject jint
  | ArrayResultDoubleValue jobject jint
  | ArrayResultStringValue jobject jint
  | ArrayResultBufferValue jobject jint
  | RowsetResultRowCount jobject
  | RowsetResultColumnCount jobject
  | RowsetResultColumnName jobject jint
  | RowsetResultValueType jobject jint jint
  | RowsetResultLongValue jobject jint jint
  | RowsetResultDoubleValue jobject jint jint
  | RowsetResultStringValue jobject jint jint
  | RowsetResultBufferValue jobject jint jint
  | RowsetColumnName jobject jint

datatype blob_op =
    ReopenBlob jobject jlong
  | CloseBlob jobject
  | BlobFieldSize jobject
  | ReadBlob jobject jobject
  | WriteBlob jobject jobject

datatype vm_op =
    VmErrorCode jobject
  | VmErrorMessage jobject
  | VmBindInt jobject jint jint
  | VmBindInt64 jobject jint jlong
  | VmBindDouble jobject jint jdouble
  | VmBindText jobject jint jstring jint
  | VmBindBlob jobject jint jobject
  | VmBindZeroBlob jobject jint
  | VmBindNull jobject jint
  | VmStep jobject
  | VmClose jobject
  | VmColumnCount jobject
  | VmLastRowID jobject
  | VmChanges jobject
  | VmTotalChanges jobject
  | VmIsReadOnly jobject
  | VmIsExplain jobject
  | VmIsFinalized jobject
  | VmBindParameterCount jobject
  | VmBindParameterIndex jobject jstring
  | VmBindParameterName jobject jint
  | VmColumnType jobject jint
  | VmResult jobject
  | VmColumnInt64 jobject jint
  | VmColumnDouble jobject jint
  | VmColumnText jobject jint
  | VmColumnBlob jobject jint

datatype bridge_op =
    OnConnection connection_op
  | OnResult result_op
  | OnBlob blob_op
  | OnVM vm_op

text \<open>
  A call of an exported function: the constant of the header, the library, \<^verbatim>\<open>env\<close>,
  \<^verbatim>\<open>thiz\<close>, the function with its arguments, and the world.
\<close>

fun run_connection ::
  "jint \<Rightarrow> sqcloud \<Rightarrow> ptr \<Rightarrow> SQLiteCloudBridge \<Rightarrow> connection_op \<Rightarrow> world \<Rightarrow>
   fault + (jvalue \<times> world)" where
  "run_connection VALUE_BLOB L jni_env this
     (DoConnect a1 a2 a3 a4 a5 a6 a7 a8 a9 a10 a11 a12 a13 a14 a15 a16 a17 a18 a19 a20 a21 a22) w =
     Inr (map_prod JObjectV id
            (doConnect L a1 a2 a3 a4 a5 a6 a7 a8 a9 a10 a11 a12 a13 a14 a15 a16 a17 a18 a19 a20
               a21 a22 w))"
| "run_connection VALUE_BLOB L jni_env this DoDisconnect w =
     Inr (JVoid, doDisconnect this w)"
| "run_connection VALUE_BLOB L jni_env this IsError w =
     Inr (map_prod JBooleanV id (isError L this w))"
| "run_connection VALUE_BLOB L jni_env this IsSQLiteError w =
     Inr (map_prod JBooleanV id (isSQLiteError L this w))"
| "run_connection VALUE_BLOB L jni_env this ErrorCode w =
     Inr (map_prod JObjectV id (errorCode L this w))"
| "run_connection VALUE_BLOB L jni_env this ErrorMessage w =
     Inr (map_prod JStringV id (errorMessage L this w))"
| "run_connection VALUE_BLOB L jni_env this ExtendedErrorCode w =
     Inr (map_prod JObjectV id (extendedErrorCode L this w))"
| "run_connection VALUE_BLOB L jni_env this ErrorOffset w =
     Inr (map_prod JObjectV id (errorOffset L this w))"
| "run_connection VALUE_BLOB L jni_env this SetPubSubCallback w =
     Inr (JVoid, setPubSubCallback jni_env this w)"
| "run_connection VALUE_BLOB L jni_env this SetPubSubOnly w =
     Inr (map_prod JObjectV id (setPubSubOnly L this w))"
| "run_connection VALUE_BLOB L jni_env this GetClientUUID w =
     Inr (map_prod JStringV id (getClientUUID L this w))"
| "run_connection VALUE_BLOB L jni_env this (ExecuteCommand a1) w =
     Inr (map_prod JObjectV id (executeCommand L this a1 w))"
| "run_connection VALUE_BLOB L jni_env this (ExecuteArrayCommand a1 a2 a3) w =
     map_sum id (map_prod JObjectV id) (executeArrayCommand VALUE_BLOB L this a1 a2 a3 w)"
| "run_connection VALUE_BLOB L jni_env this (UploadDatabase a1 a2 a3 a4 a5) w =
     Inr (map_prod JBooleanV id (uploadDatabase L this a1 a2 a3 a4 a5 w))"
| "run_connection VALUE_BLOB L jni_env this (DownloadDatabase a1 a2 a3) w =
     Inr (map_prod JBooleanV id (downloadDatabase L this a1 a2 a3 w))"
| "run_connection VALUE_BLOB L jni_env this (OpenBlob a1 a2 a3 a4 a5) w =
     Inr (map_prod JObjectV id (openBlob L this a1 a2 a3 a4 a5 w))"
| "run_connection VALUE_BLOB L jni_env this (VmCompile a1) w =
     Inr (map_prod JObjectV id (vmCompile L this a1 w))"

fun run_result ::
  "jint \<Rightarrow> sqcloud \<Rightarrow> ptr \<Rightarrow> SQLiteCloudBridge \<Rightarrow> result_op \<Rightarrow> world \<Rightarrow>
   fault + (jvalue \<times> world)" where
  "run_result VALUE_BLOB L jni_env this (FreeResult a1) w =
     Inr (JVoid, freeResult a1 w)"
| "run_result VALUE_BLOB L jni_env this (ResultType a1) w =
     Inr (map_prod JIntV id (resultType L a1 w))"
| "run_result VALUE_BLOB L jni_env this (IntResult a1) w =
     Inr (map_prod JIntV id (intResult L a1 w))"
| "run_result VALUE_BLOB L jni_env this (LongResult a1) w =
     Inr (map_prod JLongV id (longResult L a1 w))"
| "run_result VALUE_BLOB L jni_env this (DoubleResult a1) w =
     Inr (map_prod JDoubleV id (doubleResult L a1 w))"
| "run_result VALUE_BLOB L jni_env this (StringResult a1) w =
     Inr (map_prod JStringV id (stringResult L a1 w))"
| "run_result VALUE_BLOB L jni_env this (BufferResult a1) w =
     Inr (map_prod JObjectV id (bufferResult L a1 w))"
| "run_result VALUE_BLOB L jni_env this (ArrayResultSize a1) w =
     Inr (map_prod JIntV id (arrayResultSize L a1 w))"
| "run_result VALUE_BLOB L jni_env this (ArrayResultValueType a1 a2) w =
     Inr (map_prod JIntV id (arrayResultValueType L a1 a2 w))"
| "run_result VALUE_BLOB L jni_env this (ArrayResultLongValue a1 a2) w =
     Inr (map_prod JLongV id (arrayResultLongValue L a1 a2 w))"
| "run_result VALUE_BLOB L jni_env this (ArrayResultDoubleValue a1 a2) w =
     Inr (map_prod JDoubleV id (arrayResultDoubleValue L a1 a2 w))"
| "run_result VALUE_BLOB L jni_env this (ArrayResultStringValue a1 a2) w =
     Inr (map_prod JStringV id (arrayResultStringValue L a1 a2 w))"
| "run_result VALUE_BLOB L jni_env this (ArrayResultBufferValue a1 a2) w =
     Inr (map_prod JObjectV id (arrayResultBufferValue L a1 a2 w))"
| "run_result VALUE_BLOB L jni_env this (RowsetResultRowCount a1) w =
     Inr (map_prod JIntV id (rowsetResultRowCount L a1 w))"
| "run_result VALUE_BLOB L jni_env this (RowsetResultColumnCount a1) w =
     Inr (map_prod JIntV id (rowsetResultColumnCount L a1 w))"
| "run_result VALUE_BLOB L jni_env this (RowsetResultColumnName a1 a2) w =
     Inr (map_prod JStringV id (rowsetResultColumnName L a1 a2 w))"
| "run_result VALUE_BLOB L jni_env this (RowsetResultValueType a1 a2 a3) w =
     Inr (map_prod JIntV id (rowsetResultValueType L a1 a2 a3 w))"
| "run_result VALUE_BLOB L jni_env this (RowsetResultLongValue a1 a2 a3) w =
     Inr (map_prod JLongV id (rowsetResultLongValue L a1 a2 a3 w))"
| "run_result VALUE_BLOB L jni_env this (RowsetResultDoubleValue a1 a2 a3) w =
     Inr (map_prod JDoubleV id (rowsetResultDoubleValue L a1 a2 a3 w))"
| "run_result VALUE_BLOB L jni_env this (RowsetResultStringValue a1 a2 a3) w =
     Inr (map_prod JStringV id (rowsetResultStringValue L a1 a2 a3 w))"
| "run_result VALUE_BLOB L jni_env this (RowsetResultBufferValue a1 a2 a3) w =
     Inr (map_prod JObjectV id (rowsetResultBufferValue L a1 a2 a3 w))"
| "run_result VALUE_BLOB L jni_env this (RowsetColumnName a1 a2) w =
     Inr (map_prod JStringV id (rowsetColumnName L a1 a2 w))"

fun run_blob ::
  "jint \<Rightarrow> sqcloud \<Rightarrow> ptr \<Rightarrow> SQLiteCloudBridge \<Rightarrow> blob_op \<Rightarrow> world \<Rightarrow>
   fault + (jvalue \<times> world)" where
  "run_blob VALUE_BLOB L jni_env this (ReopenBlob a1 a2) w =
     Inr (map_prod JBooleanV id (reopenBlob L a1 a2 w))"
| "run_blob VALUE_BLOB L jni_env this (CloseBlob a1) w =
     Inr (map_prod JBooleanV id (closeBlob L a1 w))"
| "run_blob VALUE_BLOB L jni_env this (BlobFieldSize a1) w =
     Inr (map_prod JIntV id (blobFieldSize L a1 w))"
| "run_blob VALUE_BLOB L jni_env this (ReadBlob a1 a2) w =
     Inr (map_prod JIntV id (readBlob L a1 a2 w))"
| "run_blob VALUE_BLOB L jni_env this (WriteBlob a1 a2) w =
     Inr (map_prod JIntV id (writeBlob L a1 a2 w))"

fun run_vm ::
  "jint \<Rightarrow> sqcloud \<Rightarrow> ptr \<Rightarrow> SQLiteCloudBridge \<Rightarrow> vm_op \<Rightarrow> world \<Rightarrow>
   fault + (jvalue \<times> world)" where
  "run_vm VALUE_BLOB L jni_env this (VmErrorCode a1) w =
     Inr (map_prod JObjectV id (vmErrorCode L a1 w))"
| "run_vm VALUE_BLOB L jni_env this (VmErrorMessage a1) w =
     Inr (map_prod JStringV id (vmErrorMessage L a1 w))"
| "run_vm VALUE_BLOB L jni_env this (VmBindInt a1 a2 a3) w =
     Inr (map_prod JBooleanV id (vmBindInt L a1 a2 a3 w))"
| "run_vm VALUE_BLOB L jni_env this (VmBindInt64 a1 a2 a3) w =
     Inr (map_prod JBooleanV id (vmBindInt64 L a1 a2 a3 w))"
| "run_vm VALUE_BLOB L jni_env this (VmBindDouble a1 a2 a3) w =
     Inr (map_prod JBooleanV id (vmBindDouble L a1 a2 a3 w))"
| "run_vm VALUE_BLOB L jni_env this (VmBindText a1 a2 a3 a4) w =
     Inr (map_prod JBooleanV id (vmBindText L a1 a2 a3 a4 w))"
| "run_vm VALUE_BLOB L jni_env this (VmBindBlob a1 a2 a3) w =
     Inr (map_prod JBooleanV id (vmBindBlob L a1 a2 a3 w))"
| "run_vm VALUE_BLOB L jni_env this (VmBindZeroBlob a1 a2) w =
     Inr (map_prod JBooleanV id (vmBindZeroBlob L a1 a2 w))"
| "run_vm VALUE_BLOB L jni_env this (VmBindNull a1 a2) w =
     Inr (map_prod JBooleanV id (vmBindNull L a1 a2 w))"
| "run_vm VALUE_BLOB L jni_env this (VmStep a1) w =
     Inr (map_prod JIntV id (vmStep L a1 w))"
| "run_vm VALUE_BLOB L jni_env this (VmClose a1) w =
     Inr (map_prod JBooleanV id (vmClose L a1 w))"
| "run_vm VALUE_BLOB L jni_env this (VmColumnCount a1) w =
     Inr (map_prod JIntV id (vmColumnCount L a1 w))"
| "run_vm VALUE_BLOB L jni_env this (VmLastRowID a1) w =
     Inr (map_prod JLongV id (vmLastRowID L a1 w))"
| "run_vm VALUE_BLOB L jni_env this (VmChanges a1) w =
     Inr (map_prod JLongV id (vmChanges L a1 w))"
| "run_vm VALUE_BLOB L jni_env this (VmTotalChanges a1) w =
     Inr (map_prod JLongV id (vmTotalChanges L a1 w))"
| "run_vm VALUE_BLOB L jni_env this (VmIsReadOnly a1) w =
     Inr (map_prod JBooleanV id (vmIsReadOnly L a1 w))"
| "run_vm VALUE_BLOB L jni_env this (VmIsExplain a1) w =
     Inr (map_prod JIntV id (vmIsExplain L a1 w))"
| "run_vm VALUE_BLOB L jni_env this (VmIsFinalized a1) w =
     Inr (map_prod JBooleanV id (vmIsFinalized L a1 w))"
| "run_vm VALUE_BLOB L jni_env this (VmBindParameterCount a1) w =
     Inr (map_prod JIntV id (vmBindParameterCount L a1 w))"
| "run_vm VALUE_BLOB L jni_env this (VmBindParameterIndex a1 a2) w =
     Inr (map_prod JIntV id (vmBindParameterIndex L a1 a2 w))"
| "run_vm VALUE_BLOB L jni_env this (VmBindParameterName a1 a2) w =
     Inr (map_prod JStringV id (vmBindParameterName L a1 a2 w))"
| "run_vm VALUE_BLOB L jni_env this (VmColumnType a1 a2) w =
     Inr (map_prod JIntV id (vmColumnType L a1 a2 w))"
| "run_vm VALUE_BLOB L jni_env this (VmResult a1) w =
     Inr (map_prod JObjectV id (vmResult L a1 w))"
| "run_vm VALUE_BLOB L jni_env this (VmColumnInt64 a1 a2) w =
     Inr (map_prod JLongV id (vmColumnInt64 L a1 a2 w))"
| "run_vm VALUE_BLOB L jni_env this (VmColumnDouble a1 a2) w =
     Inr (map_prod JDoubleV id (vmColumnDouble L a1 a2 w))"
| "run_vm VALUE_BLOB L jni_env this (VmColumnText a1 a2) w =
     Inr (map_prod JStringV id (vmColumnText L a1 a2 w))"
| "run_vm VALUE_BLOB L jni_env this (VmColumnBlob a1 a2) w =
     Inr (map_prod JObjectV id (vmColumnBlob L a1 a2 w))"

fun run ::
  "jint \<Rightarrow> sqcloud \<Rightarrow> ptr \<Rightarrow> SQLiteCloudBridge \<Rightarrow> bridge_op \<Rightarrow> world \<Rightarrow>
   fault + (jvalue \<times> world)" where
  "run VALUE_BLOB L jni_env this (OnConnection op) w = run_connection VALUE_BLOB L jni_env this op w"
| "run VALUE_BLOB L jni_env this (OnResult op) w = run_result VALUE_BLOB L jni_env this op w"
| "run VALUE_BLOB L jni_env this (OnBlob op) w = run_blob VALUE_BLOB L jni_env this op w"
| "run VALUE_BLOB L jni_env this (OnVM op) w = run_vm VALUE_BLOB L jni_env this op w"

subsection \<open>Concrete libraries, receivers and worlds\<close>

text \<open>
  Two libraries to run the bridge against: one that reports an error on every call and
  answers every call with non-null data, one that reports none and answers with zeros.
\<close>

definition failing_library :: sqcloud where
  "failing_library =
     \<lparr> ret_ptr = (\<lambda>h f as. 4096),
       ret_str = (\<lambda>h f as. Some [0x62, 0x61, 0x64]),
       ret_bool = (\<lambda>h f as. True),
       ret_int = (\<lambda>h f as. 7),
       ret_long = (\<lambda>h f as. 7),
       ret_double = (\<lambda>h f as. 0),
       ret_len = (\<lambda>h f as. 3) \<rparr>"

definition quiet_library :: sqcloud where
  "quiet_library =
     \<lparr> ret_ptr = (\<lambda>h f as. 0),
       ret_str = (\<lambda>h f as. None),
       ret_bool = (\<lambda>h f as. False),
       ret_int = (\<lambda>h f as. 0),
       ret_long = (\<lambda>h f as. 0),
       ret_double = (\<lambda>h f as. 0),
       ret_len = (\<lambda>h f as. 0) \<rparr>"

definition fresh_world :: world where
  "fresh_world = \<lparr> trace = [], heap = [] \<rparr>"

definition unconnected :: SQLiteCloudBridge where
  "unconnected = \<lparr> object_id = 1, connection = JNull, local_frame = 1 \<rparr>"

definition connected :: SQLiteCloudBridge where
  "connected = \<lparr> object_id = 1, connection = DirectByteBuffer 4096 8, local_frame = 1 \<rparr>"

text \<open>A library that reports an error and has no message for it.\<close>

definition mute_library :: sqcloud where
  "mute_library =
     \<lparr> ret_ptr = (\<lambda>h f as. 0),
       ret_str = (\<lambda>h f as. None),
       ret_bool = (\<lambda>h f as. True),
       ret_int = (\<lambda>h f as. 7),
       ret_long = (\<lambda>h f as. 0),
       ret_double = (\<lambda>h f as. 0),
       ret_len = (\<lambda>h f as. 0) \<rparr>"

subsection \<open>Observing a call\<close>

text \<open>The events a call appended to the trace.\<close>

definition new_events :: "world \<Rightarrow> world \<Rightarrow> event list" where
  "new_events w w' = drop (length (trace w)) (trace w')"













subsection \<open>What forwarding means\<close>

text \<open>
  The conversions at the boundary, stated on their own.  A host string becomes the
  \<^verbatim>\<open>const char *\<close> of its UTF conversion and null becomes NULL; a boxed pointer becomes
  the address of its buffer; the stored connection is the address in the receiver's field;
  a jboolean flag is true when it is not zero; numbers and other host references go through
  as they are.
\<close>

definition native_chars :: "jstring \<Rightarrow> cstr" where
  "native_chars s = map_option GetStringUTFChars s"

definition native_string :: "jstring \<Rightarrow> arg" where
  "native_string s = AStr (native_chars s)"

definition native_handle :: "jobject \<Rightarrow> arg" where
  "native_handle box = APtr (GetDirectBufferAddress box)"

definition stored_connection :: "SQLiteCloudBridge \<Rightarrow> arg" where
  "stored_connection this = native_handle (connection this)"

definition native_flag :: "jboolean \<Rightarrow> bool" where
  "native_flag b = (b \<noteq> 0)"

text \<open>
  The arrays of an array command: entry \<open>i\<close> is the address and the capacity of the
  buffer where the declared type is \<^verbatim>\<open>VALUE_BLOB\<close>, and the UTF conversion of the string
  with its number of UTF-16 code units otherwise.
\<close>

definition elements :: "'a list option \<Rightarrow> 'a list" where
  "elements array = (case array of None \<Rightarrow> [] | Some xs \<Rightarrow> xs)"

definition array_count :: "jobject list \<Rightarrow> uint32_t" where
  "array_count ps = of_nat (length ps)"

definition array_value :: "jint \<Rightarrow> jobject \<Rightarrow> jint \<Rightarrow> native_param" where
  "array_value VALUE_BLOB p t =
     (if t = VALUE_BLOB then BufferAddress (GetDirectBufferAddress p)
      else UTFChars (case p of JString s \<Rightarrow> Some (GetStringUTFChars s) | _ \<Rightarrow> None))"

definition array_length :: "jint \<Rightarrow> jobject \<Rightarrow> jint \<Rightarrow> uint32_t" where
  "array_length VALUE_BLOB p t =
     (if t = VALUE_BLOB then ucast (GetDirectBufferCapacity p)
      else (case p of JString s \<Rightarrow> of_nat (length s) | _ \<Rightarrow> 0))"

definition array_values :: "jint \<Rightarrow> jobject list \<Rightarrow> jint list \<Rightarrow> native_param list" where
  "array_values VALUE_BLOB ps ts =
     map (\<lambda>i. array_value VALUE_BLOB (ps ! i) (ts ! i)) [0..<unat (array_count ps)]"

definition array_lengths :: "jint \<Rightarrow> jobject list \<Rightarrow> jint list \<Rightarrow> uint32_t list" where
  "array_lengths VALUE_BLOB ps ts =
     map (\<lambda>i. array_length VALUE_BLOB (ps ! i) (ts ! i)) [0..<unat (array_count ps)]"

text \<open>
  The conversions back: a pointer is boxed, with NULL becoming the null reference; a C
  string becomes a host string; a truth value becomes a jboolean; numbers go through; an
  error number is boxed as an Integer; a pointer with a length becomes a direct buffer of
  that length.
\<close>

datatype host_conversion =
    AsVoid
  | AsBoolean
  | AsInt
  | AsLong
  | AsDouble
  | AsString
  | AsBoxedPointer
  | AsBoxedInteger
  | AsBuffer



text \<open>
  For each exported function: the native function it forwards to, the native values it
  passes, in order, and the conversion of the answer it returns.  The constants are the
  ones the bridge supplies itself: the trampoline and the address of the new PubSubData in
  \<open>setPubSubCallback\<close>, length \<open>-1\<close> and no tail pointer in \<open>vmCompile\<close>, offset 0 in the
  blob transfers, length 0 in \<open>vmBindZeroBlob\<close>.
\<close>

type_synonym forwarding = "string \<times> arg list \<times> host_conversion"

fun forwarding_of_connection_op ::
  "jint \<Rightarrow> SQLiteCloudBridge \<Rightarrow> world \<Rightarrow> connection_op \<Rightarrow> forwarding" where
  "forwarding_of_connection_op VALUE_BLOB this w
     (DoConnect hostname port a_username a_password a_database a_timeout a_family
        a_compression a_sqlite_mode a_zero_text a_password_hashed a_nonlinearizable
        a_db_memory a_no_blob a_db_create a_max_data a_max_rows a_max_rowset
        a_tls_root_certificate a_tls_certificate a_tls_certificate_key a_insecure) =
     (''SQCloudConnect'',
      [native_string hostname, AInt port,
       AConfig \<lparr>
         username = native_chars a_username,
         password = native_chars a_password,
         database = native_chars a_database,
         timeout = a_timeout,
         family = a_family,
         compression = native_flag a_compression,
         sqlite_mode = native_flag a_sqlite_mode,
         zero_text = native_flag a_zero_text,
         password_hashed = native_flag a_password_hashed,
         nonlinearizable = native_flag a_nonlinearizable,
         db_memory = native_flag a_db_memory,
         no_blob = native_flag a_no_blob,
         db_create = native_flag a_db_create,
         max_data = a_max_data,
         max_rows = a_max_rows,
         max_rowset = a_max_rowset,
         tls_root_certificate = native_chars a_tls_root_certificate,
         tls_certificate = native_chars a_tls_certificate,
         tls_certificate_key = native_chars a_tls_certificate_key,
         insecure = native_flag a_insecure \<rparr>],
      AsBoxedPointer)"
| "forwarding_of_connection_op VALUE_BLOB this w DoDisconnect =
     (''SQCloudDisconnect'', [stored_connection this], AsVoid)"
| "forwarding_of_connection_op VALUE_BLOB this w IsError =
     (''SQCloudIsError'', [stored_connection this], AsBoolean)"
| "forwarding_of_connection_op VALUE_BLOB this w IsSQLiteError =
     (''SQCloudIsSQLiteError'', [stored_connection this], AsBoolean)"
| "forwarding_of_connection_op VALUE_BLOB this w ErrorCode =
     (''SQCloudErrorCode'', [stored_connection this], AsBoxedInteger)"
| "forwarding_of_connection_op VALUE_BLOB this w ErrorMessage =
     (''SQCloudErrorMsg'', [stored_connection this], AsString)"
| "forwarding_of_connection_op VALUE_BLOB this w ExtendedErrorCode =
     (''SQCloudExtendedErrorCode'', [stored_connection this], AsBoxedInteger)"
| "forwarding_of_connection_op VALUE_BLOB this w ErrorOffset =
     (''SQCloudErrorOffset'', [stored_connection this], AsBoxedInteger)"
| "forwarding_of_connection_op VALUE_BLOB this w SetPubSubCallback =
     (''SQCloudSetPubSubCallback'',
      [stored_connection this, AFunction PubSubCallbackFn, APtr (Suc (length (heap w)))],
      AsVoid)"
| "forwarding_of_connection_op VALUE_BLOB this w SetPubSubOnly =
     (''SQCloudSetPubSubOnly'', [stored_connection this], AsBoxedPointer)"
| "forwarding_of_connection_op VALUE_BLOB this w GetClientUUID =
     (''SQCloudUUID'', [stored_connection this], AsString)"
| "forwarding_of_connection_op VALUE_BLOB this w (ExecuteCommand query) =
     (''SQCloudExec'', [stored_connection this, native_string query], AsBoxedPointer)"
| "forwarding_of_connection_op VALUE_BLOB this w (ExecuteArrayCommand query params param_types) =
     (''SQCloudExecArray'',
      [stored_connection this, native_string query,
       AValues (array_values VALUE_BLOB (elements params) (elements param_types)),
       ALengths (array_lengths VALUE_BLOB (elements params) (elements param_types)),
       ATypes (elements param_types), AUInt32 (array_count (elements params))],
      AsBoxedPointer)"
| "forwarding_of_connection_op VALUE_BLOB this w
     (UploadDatabase name encryption_key data_handler file_size callback) =
     (''SQCloudUploadDatabase'',
      [stored_connection this, native_string name, native_string encryption_key,
       AObject data_handler, ALong file_size, AObject callback],
      AsBoolean)"
| "forwarding_of_connection_op VALUE_BLOB this w (DownloadDatabase name data_handler callback) =
     (''SQCloudDownloadDatabase'',
      [stored_connection this, native_string name, AObject data_handler, AObject callback],
      AsBoolean)"
| "forwarding_of_connection_op VALUE_BLOB this w
     (OpenBlob schema table column row_id read_write) =
     (''SQCloudBlobOpen'',
      [stored_connection this, native_string schema, native_string table, native_string column,
       ALong row_id, ABoolean read_write],
      AsBoxedPointer)"
| "forwarding_of_connection_op VALUE_BLOB this w (VmCompile query) =
     (''SQCloudVMCompile'',
      [stored_connection this, native_string query, AInt (- 1), APtr 0], AsBoxedPointer)"

fun forwarding_of_result_op :: "result_op \<Rightarrow> forwarding" where
  "forwarding_of_result_op (FreeResult result) =
     (''SQCloudResultFree'', [native_handle result], AsVoid)"
| "forwarding_of_result_op (ResultType result) =
     (''SQCloudResultType'', [native_handle result], AsInt)"
| "forwarding_of_result_op (IntResult result) =
     (''SQCloudResultInt32'', [native_handle result], AsInt)"
| "forwarding_of_result_op (LongResult result) =
     (''SQCloudResultInt64'', [native_handle result], AsLong)"
| "forwarding_of_result_op (DoubleResult result) =
     (''SQCloudResultDouble'', [native_handle result], AsDouble)"
| "forwarding_of_result_op (StringResult result) =
     (''SQCloudResultBuffer'', [native_handle result], AsString)"
| "forwarding_of_result_op (BufferResult result) =
     (''SQCloudResultBuffer'', [native_handle result], AsBuffer)"
| "forwarding_of_result_op (ArrayResultSize result) =
     (''SQCloudArrayCount'', [native_handle result], AsInt)"
| "forwarding_of_result_op (ArrayResultValueType result index) =
     (''SQCloudArrayValueType'', [native_handle result, AInt index], AsInt)"
| "forwarding_of_result_op (ArrayResultLongValue result index) =
     (''SQCloudArrayInt64Value'', [native_handle result, AInt index], AsLong)"
| "forwarding_of_result_op (ArrayResultDoubleValue result index) =
     (''SQCloudArrayDoubleValue'', [native_handle result, AInt index], AsDouble)"
| "forwarding_of_result_op (ArrayResultStringValue result index) =
     (''SQCloudArrayValue'', [native_handle result, AInt index, AOutLen], AsString)"
| "forwarding_of_result_op (ArrayResultBufferValue result index) =
     (''SQCloudArrayValue'', [native_handle result, AInt index, AOutLen], AsBuffer)"
| "forwarding_of_result_op (RowsetResultRowCount result) =
     (''SQCloudRowsetRows'', [native_handle result], AsInt)"
| "forwarding_of_result_op (RowsetResultColumnCount result) =
     (''SQCloudRowsetCols'', [native_handle result], AsInt)"
| "forwarding_of_result_op (RowsetResultColumnName result column) =
     (''SQCloudRowsetColumnName'', [native_handle result, AInt column, AOutLen], AsString)"
| "forwarding_of_result_op (RowsetResultValueType result row column) =
     (''SQCloudRowsetValueType'', [native_handle result, AInt row, AInt column], AsInt)"
| "forwarding_of_result_op (RowsetResultLongValue result row column) =
     (''SQCloudRowsetInt64Value'', [native_handle result, AInt row, AInt column], AsLong)"
| "forwarding_of_result_op (RowsetResultDoubleValue result row column) =
     (''SQCloudRowsetDoubleValue'', [native_handle result, AInt row, AInt column], AsDouble)"
| "forwarding_of_result_op (RowsetResultStringValue result row column) =
     (''SQCloudRowsetValue'', [native_handle result, AInt row, AInt column, AOutLen], AsString)"
| "forwarding_of_result_op (RowsetResultBufferValue result row column) =
     (''SQCloudRowsetValue'', [native_handle result, AInt row, AInt column, AOutLen], AsBuffer)"
| "forwarding_of_result_op (RowsetColumnName result index) =
     (''SQCloudRowsetColumnName'', [native_handle result, AInt index, AOutLen], AsString)"

fun forwarding_of_blob_op :: "blob_op \<Rightarrow> forwarding" where
  "forwarding_of_blob_op (ReopenBlob handle row_id) =
     (''SQCloudBlobReOpen'', [native_handle handle, ALong row_id], AsBoolean)"
| "forwarding_of_blob_op (CloseBlob handle) =
     (''SQCloudBlobClose'', [native_handle handle], AsBoolean)"
| "forwarding_of_blob_op (BlobFieldSize handle) =
     (''SQCloudBlobBytes'', [native_handle handle], AsInt)"
| "forwarding_of_blob_op (ReadBlob handle buffer) =
     (''SQCloudBlobRead'',
      [native_handle handle, APtr (GetDirectBufferAddress buffer),
       ALong (GetDirectBufferCapacity buffer), AInt 0],
      AsInt)"
| "forwarding_of_blob_op (WriteBlob handle buffer) =
     (''SQCloudBlobWrite'',
      [native_handle handle, APtr (GetDirectBufferAddress buffer),
       ALong (GetDirectBufferCapacity buffer), AInt 0],
      AsInt)"

fun forwarding_of_vm_op :: "vm_op \<Rightarrow> forwarding" where
  "forwarding_of_vm_op (VmErrorCode vm) =
     (''SQCloudVMErrorCode'', [native_handle vm], AsBoxedInteger)"
| "forwarding_of_vm_op (VmErrorMessage vm) =
     (''SQCloudVMErrorMsg'', [native_handle vm], AsString)"
| "forwarding_of_vm_op (VmBindInt vm row_index v) =
     (''SQCloudVMBindInt'', [native_handle vm, AInt row_index, AInt v], AsBoolean)"
| "forwarding_of_vm_op (VmBindInt64 vm row_index v) =
     (''SQCloudVMBindInt64'', [native_handle vm, AInt row_index, ALong v], AsBoolean)"
| "forwarding_of_vm_op (VmBindDouble vm row_index v) =
     (''SQCloudVMBindDouble'', [native_handle vm, AInt row_index, ADouble v], AsBoolean)"
| "forwarding_of_vm_op (VmBindText vm row_index v byteSize) =
     (''SQCloudVMBindText'',
      [native_handle vm, AInt row_index, native_string v, AInt byteSize], AsBoolean)"
| "forwarding_of_vm_op (VmBindBlob vm row_index v) =
     (''SQCloudVMBindBlob'',
      [native_handle vm, AInt row_index, APtr (GetDirectBufferAddress v),
       ALong (GetDirectBufferCapacity v)],
      AsBoolean)"
| "forwarding_of_vm_op (VmBindZeroBlob vm row_index) =
     (''SQCloudVMBindZeroBlob'', [native_handle vm, AInt row_index, AInt 0], AsBoolean)"
| "forwarding_of_vm_op (VmBindNull vm row_index) =
     (''SQCloudVMBindNull'', [native_handle vm, AInt row_index], AsBoolean)"
| "forwarding_of_vm_op (VmStep vm) = (''SQCloudVMStep'', [native_handle vm], AsInt)"
| "forwarding_of_vm_op (VmClose vm) = (''SQCloudVMClose'', [native_handle vm], AsBoolean)"
| "forwarding_of_vm_op (VmColumnCount vm) =
     (''SQCloudVMColumnCount'', [native_handle vm], AsInt)"
| "forwarding_of_vm_op (VmLastRowID vm) =
     (''SQCloudVMLastRowID'', [native_handle vm], AsLong)"
| "forwarding_of_vm_op (VmChanges vm) = (''SQCloudVMChanges'', [native_handle vm], AsLong)"
| "forwarding_of_vm_op (VmTotalChanges vm) =
     (''SQCloudVMTotalChanges'', [native_handle vm], AsLong)"
| "forwarding_of_vm_op (VmIsReadOnly vm) =
     (''SQCloudVMIsReadOnly'', [native_handle vm], AsBoolean)"
| "forwarding_of_vm_op (VmIsExplain vm) =
     (''SQCloudVMIsExplain'', [native_handle vm], AsInt)"
| "forwarding_of_vm_op (VmIsFinalized vm) =
     (''SQCloudVMIsFinalized'', [native_handle vm], AsBoolean)"
| "forwarding_of_vm_op (VmBindParameterCount vm) =
     (''SQCloudVMBindParameterCount'', [native_handle vm], AsInt)"
| "forwarding_of_vm_op (VmBindParameterIndex vm name) =
     (''SQCloudVMBindParameterIndex'', [native_handle vm, native_string name], AsInt)"
| "forwarding_of_vm_op (VmBindParameterName vm index) =
     (''SQCloudVMBindParameterName'', [native_handle vm, AInt index], AsString)"
| "forwarding_of_vm_op (VmColumnType vm index) =
     (''SQCloudVMColumnType'', [native_handle vm, AInt index], AsInt)"
| "forwarding_of_vm_op (VmResult vm) =
     (''SQCloudVMResult'', [native_handle vm], AsBoxedPointer)"
| "forwarding_of_vm_op (VmColumnInt64 vm index) =
     (''SQCloudVMColumnInt64'', [native_handle vm, AInt index], AsLong)"
| "forwarding_of_vm_op (VmColumnDouble vm index) =
     (''SQCloudVMColumnDouble'', [native_handle vm, AInt index], AsDouble)"
| "forwarding_of_vm_op (VmColumnText vm index) =
     (''SQCloudVMColumnText'', [native_handle vm, AInt index, AOutLen], AsString)"
| "forwarding_of_vm_op (VmColumnBlob vm index) =
     (''SQCloudVMColumnBlob'', [native_handle vm, AInt index, AOutLen], AsBuffer)"

fun forwarding :: "jint \<Rightarrow> SQLiteCloudBridge \<Rightarrow> world \<Rightarrow> bridge_op \<Rightarrow> forwarding" where
  "forwarding VALUE_BLOB this w (OnConnection op) =
     forwarding_of_connection_op VALUE_BLOB this w op"
| "forwarding VALUE_BLOB this w (OnResult op) = forwarding_of_result_op op"
| "forwarding VALUE_BLOB this w (OnBlob op) = forwarding_of_blob_op op"
| "forwarding VALUE_BLOB this w (OnVM op) = forwarding_of_vm_op op"









text \<open>The exported functions that call \<^verbatim>\<open>new\<close> or \<^verbatim>\<open>calloc\<close>.\<close>

fun allocating :: "bridge_op \<Rightarrow> bool" where
  "allocating (OnConnection SetPubSubCallback) = True"
| "allocating (OnConnection (ExecuteArrayCommand query params param_types)) = True"
| "allocating _ = False"

text \<open>
  What a native call of the blob functions has to look like for its offset, or its
  zero-blob length, to be the constant 0.
\<close>

fun last_is_zero :: "arg list \<Rightarrow> bool" where
  "last_is_zero [] = False"
| "last_is_zero [a] = (a = AInt 0)"
| "last_is_zero (a # b # as) = last_is_zero (b # as)"

fun fixed_blob_arguments :: "event \<Rightarrow> bool" where
  "fixed_blob_arguments (Native f as) =
     (if f = ''SQCloudBlobRead'' \<or> f = ''SQCloudBlobWrite'' then length as = 4 \<and> last_is_zero as
      else if f = ''SQCloudVMBindZeroBlob'' then length as = 3 \<and> last_is_zero as
      else True)"
| "fixed_blob_arguments (CallVoidMethod receiver name signature as) = True"

text \<open>The boolean fields of \<^verbatim>\<open>SQCloudConfig\<close> that \<^verbatim>\<open>doConnect\<close> sets, in order.\<close>

definition config_flags :: "SQCloudConfig \<Rightarrow> bool list" where
  "config_flags c =
     [compression c, sqlite_mode c, zero_text c, password_hashed c, nonlinearizable c,
      db_memory c, no_blob c, db_create c, insecure c]"

text \<open>
  What entry \<open>j\<close> of the value and length arrays of \<^verbatim>\<open>executeArrayCommand\<close> holds
  after the loop, by the declared type of parameter \<open>j\<close>.
\<close>

definition entry_ok ::
  "jint \<Rightarrow> jobject list \<Rightarrow> jint list \<Rightarrow> native_param list \<Rightarrow> uint32_t list \<Rightarrow> nat \<Rightarrow> bool" where
  "entry_ok VB ps ts vs ls j =
     (if ts ! j = VB
      then vs ! j = BufferAddress (GetDirectBufferAddress (GetObjectArrayElement ps j)) \<and>
           ls ! j = ucast (GetDirectBufferCapacity (GetObjectArrayElement ps j))
      else \<exists>s. GetObjectArrayElement ps j = JString s \<and>
               vs ! j = UTFChars (Some (GetStringUTFChars s)) \<and>
               ls ! j = GetStringLength s)"

text \<open>
  What happens after a registration: further calls of exported functions, and events the
  native library delivers by calling the trampoline.  A call runs to its return before the
  next activity, so a delivery finds the delivering thread inside no call of a native
  method: it comes with the \<^verbatim>\<open>JNIEnv *\<close> of its thread only.  A fault ends the run.
\<close>

datatype activity =
    Call ptr SQLiteCloudBridge bridge_op
  | Deliver ptr ptr ptr ptr \<comment> \<open>the thread's \<^verbatim>\<open>JNIEnv *\<close>, connection, result, data\<close>

fun run_all :: "jint \<Rightarrow> sqcloud \<Rightarrow> activity list \<Rightarrow> world \<Rightarrow> world option" where
  "run_all VALUE_BLOB L [] w = Some w"
| "run_all VALUE_BLOB L (Call jni_env this op # rest) w =
     (case run VALUE_BLOB L jni_env this op w of
        Inl f \<Rightarrow> None
      | Inr (r, w') \<Rightarrow> run_all VALUE_BLOB L rest w')"
| "run_all VALUE_BLOB L (Deliver thread_env conn result data # rest) w =
     (case pubSubCallback \<lparr> current_env = thread_env, live_frames = [] \<rparr> conn result data w of
        Inl f \<Rightarrow> None
      | Inr w' \<Rightarrow> run_all VALUE_BLOB L rest w')"



section \<open>Properties\<close>

lemmas unwrap_defs = unwrapPointer_def unwrapResult_def unwrapBlob_def unwrapVM_def

lemmas call_defs = call_void_def call_ptr_def call_str_def call_bool_def call_int_def
  call_long_def call_double_def call_len_def call_ptr_len_def emit_def

subsection \<open>Boxing and unboxing of pointers\<close>

text \<open>
  C7.  Boxing then unboxing gives the pointer back: \<open>wrapPointer\<close> maps the null pointer to
  the null reference, and for every non-null pointer \<open>p\<close> each of \<open>unwrapPointer\<close>,
  \<open>unwrapResult\<close>, \<open>unwrapBlob\<close> and \<open>unwrapVM\<close> applied to \<open>wrapPointer p\<close> is \<open>p\<close>.
\<close>

theorem wrap_unwrap_roundtrip:
  "wrapPointer 0 = JNull \<and>
   (p \<noteq> 0 \<longrightarrow>
      unwrapPointer (wrapPointer p) = p \<and> unwrapResult (wrapPointer p) = p \<and>
      unwrapBlob (wrapPointer p) = p \<and> unwrapVM (wrapPointer p) = p)"
  by (simp add: wrapPointer_def unwrap_defs NewDirectByteBuffer_def)

theorem wrap_unwrap_roundtrip_witness:
  "wrapPointer 0 = JNull \<and> (4096::nat) \<noteq> 0 \<and>
   unwrapPointer (wrapPointer 4096) = 4096 \<and> unwrapResult (wrapPointer 4096) = 4096 \<and>
   unwrapBlob (wrapPointer 4096) = 4096 \<and> unwrapVM (wrapPointer 4096) = 4096"
  using wrap_unwrap_roundtrip [of 4096] by simp

subsection \<open>Null-handle guards\<close>

text \<open>
  C9.  When the VM handle unwraps to the null pointer, \<open>vmErrorCode\<close> and \<open>vmErrorMessage\<close>
  return the null reference and leave the world as it was: no native call is made.  The same
  holds for \<open>getClientUUID\<close> when the stored connection pointer is null.
\<close>

theorem null_handle_guards:
  "(unwrapVM wrappedVM = 0 \<longrightarrow>
      vmErrorCode L wrappedVM w = (JNull, w) \<and> vmErrorMessage L wrappedVM w = (None, w)) \<and>
   (getConnection this = 0 \<longrightarrow> getClientUUID L this w = (None, w))"
  by (simp add: vmErrorCode_def vmErrorMessage_def getClientUUID_def)

theorem null_handle_guards_witness:
  "unwrapVM JNull = 0 \<and> getConnection unconnected = 0 \<and>
   vmErrorCode failing_library JNull fresh_world = (JNull, fresh_world) \<and>
   vmErrorMessage failing_library JNull fresh_world = (None, fresh_world) \<and>
   getClientUUID failing_library unconnected fresh_world = (None, fresh_world)"
  using null_handle_guards [of JNull failing_library fresh_world unconnected]
  by (simp add: unwrap_defs getConnection_def unconnected_def)

subsection \<open>Unfolding the exported functions\<close>

lemmas connection_defs = doDisconnect_def isError_def isSQLiteError_def
  errorCode_def errorMessage_def extendedErrorCode_def errorOffset_def setPubSubCallback_def
  setPubSubOnly_def getClientUUID_def executeCommand_def
  uploadDatabase_def downloadDatabase_def openBlob_def vmCompile_def

lemmas result_defs = freeResult_def resultType_def intResult_def longResult_def
  doubleResult_def stringResult_def bufferResult_def arrayResultSize_def
  arrayResultValueType_def arrayResultLongValue_def arrayResultDoubleValue_def
  arrayResultStringValue_def arrayResultBufferValue_def rowsetResultRowCount_def
  rowsetResultColumnCount_def rowsetResultColumnName_def rowsetResultValueType_def
  rowsetResultLongValue_def rowsetResultDoubleValue_def rowsetResultStringValue_def
  rowsetResultBufferValue_def rowsetColumnName_def

lemmas blob_defs = reopenBlob_def closeBlob_def blobFieldSize_def readBlob_def writeBlob_def

lemmas vm_defs = vmErrorCode_def vmErrorMessage_def vmBindInt_def vmBindInt64_def
  vmBindDouble_def vmBindText_def vmBindBlob_def vmBindZeroBlob_def vmBindNull_def
  vmStep_def vmClose_def vmColumnCount_def vmLastRowID_def vmChanges_def vmTotalChanges_def
  vmIsReadOnly_def vmIsExplain_def vmIsFinalized_def vmBindParameterCount_def
  vmBindParameterIndex_def vmBindParameterName_def vmColumnType_def vmResult_def
  vmColumnInt64_def vmColumnDouble_def vmColumnText_def vmColumnBlob_def

subsection \<open>The loop of the array command\<close>

text \<open>
  The loop itself, for every run that does not fault: entry \<open>j\<close> of the two arrays is the
  direct address and the capacity of parameter \<open>j\<close> where its declared type is
  \<^verbatim>\<open>VALUE_BLOB\<close>, and the UTF conversion and \<^verbatim>\<open>GetStringLength\<close> of the string
  otherwise; entries below the start index are left alone.
\<close>

lemma fillParams_entries:
  assumes "fillParams VB ps ts n i vs ls = Inr (vs', ls')"
    and "length vs = unat n" and "length ls = unat n"
  shows "length vs' = unat n \<and> length ls' = unat n \<and>
    (\<forall>j<i. vs' ! j = vs ! j \<and> ls' ! j = ls ! j) \<and>
    (\<forall>j. i \<le> j \<and> j < unat n \<longrightarrow> entry_ok VB ps ts vs' ls' j)"
  using assms
proof (induction VB ps ts n i vs ls rule: fillParams.induct)
  case (1 VB ps ts n i vs ls)
  show ?case
  proof (cases "i < unat n")
    case False
    with "1.prems" show ?thesis
      by (subst (asm) fillParams.simps) auto
  next
    case True
    with "1.prems" have in_types: "\<not> length ts \<le> i"
      by (subst (asm) fillParams.simps) auto
    let ?param = "GetObjectArrayElement ps i"
    have step: "\<exists>v l.
        fillParams VB ps ts n (Suc i) (vs[i := v]) (ls[i := l]) = Inr (vs', ls') \<and>
        (if ts ! i = VB
         then v = BufferAddress (GetDirectBufferAddress ?param) \<and>
              l = ucast (GetDirectBufferCapacity ?param)
         else \<exists>s. ?param = JString s \<and> v = UTFChars (Some (GetStringUTFChars s)) \<and>
                  l = GetStringLength s) \<and>
        length vs' = unat n \<and> length ls' = unat n \<and>
        (\<forall>j<Suc i. vs' ! j = vs[i := v] ! j \<and> ls' ! j = ls[i := l] ! j) \<and>
        (\<forall>j. Suc i \<le> j \<and> j < unat n \<longrightarrow> entry_ok VB ps ts vs' ls' j)"
    proof (cases "ts ! i = VB")
      case blob: True
      let ?vs = "vs[i := BufferAddress (GetDirectBufferAddress ?param)]"
      let ?ls = "ls[i := ucast (GetDirectBufferCapacity ?param)]"
      from "1.prems"(1) True in_types blob
      have rest: "fillParams VB ps ts n (Suc i) ?vs ?ls = Inr (vs', ls')"
        by (subst (asm) fillParams.simps) (simp add: Let_def)
      from "1.IH"(1) [OF True in_types refl blob rest] "1.prems"(2,3) rest blob
      show ?thesis by auto
    next
      case str: False
      from "1.prems"(1) True in_types str obtain s where
        string: "?param = JString s"
        by (subst (asm) fillParams.simps) (auto simp: Let_def split: jobject.splits)
      let ?vs = "vs[i := UTFChars (cString (Some s))]"
      let ?ls = "ls[i := GetStringLength s]"
      from "1.prems"(1) True in_types str string
      have rest: "fillParams VB ps ts n (Suc i) ?vs ?ls = Inr (vs', ls')"
        by (subst (asm) fillParams.simps) (simp add: Let_def)
      from "1.IH"(2) [OF True in_types refl str string rest] "1.prems"(2,3) rest str string
      show ?thesis by auto
    qed
    then obtain v l where
      here: "if ts ! i = VB
         then v = BufferAddress (GetDirectBufferAddress ?param) \<and>
              l = ucast (GetDirectBufferCapacity ?param)
         else \<exists>s. ?param = JString s \<and> v = UTFChars (Some (GetStringUTFChars s)) \<and>
                  l = GetStringLength s"
      and lens: "length vs' = unat n" "length ls' = unat n"
      and below: "\<forall>j<Suc i. vs' ! j = vs[i := v] ! j \<and> ls' ! j = ls[i := l] ! j"
      and above: "\<forall>j. Suc i \<le> j \<and> j < unat n \<longrightarrow> entry_ok VB ps ts vs' ls' j"
      by blast
    from below True "1.prems"(2,3) have at_i: "vs' ! i = v" "ls' ! i = l"
      by simp_all
    from below have kept: "vs' ! j = vs ! j \<and> ls' ! j = ls ! j" if "j < i" for j
      using that by simp
    have "entry_ok VB ps ts vs' ls' j" if "i \<le> j" and "j < unat n" for j
    proof (cases "j = i")
      case True
      with here at_i show ?thesis
        by (simp add: entry_ok_def)
    next
      case False
      with that have "Suc i \<le> j" by simp
      with above that show ?thesis by blast
    qed
    with lens kept show ?thesis by blast
  qed
qed

text \<open>
  What \<open>executeArrayCommand\<close> passes on when it does not fault.  The parameter count is
  the length of the array, the declared types are forwarded as they are, a blob is passed
  by address and capacity, and a string by its UTF conversion with its length in UTF-16
  code units.
\<close>

lemma executeArrayCommand_marshals:
  assumes "executeArrayCommand VB L this query (Some ps) (Some ts) w = Inr (r, w')"
    and "length ps < 2 ^ 32"
  shows "\<exists>vs ls.
    new_events w w' =
      [Native ''SQCloudExecArray''
         [APtr (getConnection this), AStr (cString query), AValues vs, ALengths ls,
          ATypes ts, AUInt32 (of_nat (length ps))]] \<and>
    length vs = length ps \<and> length ls = length ps \<and>
    (\<forall>i<length ps.
       if ts ! i = VB
       then vs ! i = BufferAddress (GetDirectBufferAddress (ps ! i)) \<and>
            ls ! i = ucast (GetDirectBufferCapacity (ps ! i))
       else \<exists>s. ps ! i = JString s \<and> vs ! i = UTFChars (Some (GetStringUTFChars s)) \<and>
                ls ! i = GetStringLength s)"
proof -
  let ?n = "of_nat (length ps) :: uint32_t"
  from assms(2) have n: "unat ?n = length ps"
    by (simp add: unat_of_nat)
  from assms(1) obtain vs ls where
    filled: "fillParams VB ps ts ?n 0 (replicate (unat ?n) Unset) (replicate (unat ?n) 0) =
             Inr (vs, ls)"
    and events: "new_events w w' =
      [Native ''SQCloudExecArray''
         [APtr (getConnection this), AStr (cString query), AValues vs, ALengths ls,
          ATypes ts, AUInt32 ?n]]"
    by (auto simp: executeArrayCommand_def call_defs alloc_def new_events_def Let_def split_def
             split: sum.splits)
  from fillParams_entries [OF filled] n
  have "length vs = length ps \<and> length ls = length ps \<and>
    (\<forall>j. j < length ps \<longrightarrow> entry_ok VB ps ts vs ls j)"
    by simp
  with events show ?thesis
    by (auto simp: entry_ok_def GetObjectArrayElement_def)
qed


subsection \<open>The conversions of the source are the conversions of the boundary\<close>




lemma getConnection_stored: "APtr (getConnection this) = stored_connection this"
  by (simp add: getConnection_def stored_connection_def native_handle_def)







subsection \<open>Forwarding\<close>









subsection \<open>Branching on the error state\<close>
















subsection \<open>What the bridge keeps\<close>

lemma heap_vm:
  "run_vm VB L e t op w = Inr (r, w') \<Longrightarrow> heap w' = heap w"
  by (cases op) (auto simp: vm_defs call_defs Let_def split_def split: if_splits)

lemma heap_blob:
  "run_blob VB L e t op w = Inr (r, w') \<Longrightarrow> heap w' = heap w"
  by (cases op) (auto simp: blob_defs call_defs Let_def split_def)

lemma heap_result:
  "run_result VB L e t op w = Inr (r, w') \<Longrightarrow> heap w' = heap w"
  by (cases op) (auto simp: result_defs call_defs Let_def split_def)

lemma heap_connection:
  assumes "run_connection VB L e t op w = Inr (r, w')"
  shows "heap w' =
    (case op of
       SetPubSubCallback \<Rightarrow> heap w @ [NewPubSubData \<lparr> env = e, thiz = t \<rparr>]
     | ExecuteArrayCommand q ps ts \<Rightarrow>
         heap w @ [Calloc (of_nat (length (the ps))) sizeof_void_ptr,
                   Calloc (of_nat (length (the ps))) sizeof_uint32]
     | _ \<Rightarrow> heap w)"
proof (cases op)
  case (ExecuteArrayCommand q ps ts)
  with assms show ?thesis
    by (auto simp: executeArrayCommand_def call_defs alloc_def Let_def split_def
             split: option.splits sum.splits)
next
  case DoConnect
  with assms show ?thesis
    by (auto simp: doConnect_def call_defs Let_def split_def)
qed (use assms in \<open>auto simp: connection_defs call_defs alloc_def Let_def split_def
                     split: if_splits\<close>)

lemma heap_grows:
  assumes "run VB L e t op w = Inr (r, w')"
  shows "\<exists>bs. heap w' = heap w @ bs"
proof (cases op)
  case (OnConnection c)
  with assms have "run_connection VB L e t c w = Inr (r, w')" by simp
  from heap_connection [OF this] show ?thesis
    by (cases c) simp_all
next
  case (OnResult c)
  with assms have "run_result VB L e t c w = Inr (r, w')" by simp
  from heap_result [OF this] show ?thesis by simp
next
  case (OnBlob c)
  with assms have "run_blob VB L e t c w = Inr (r, w')" by simp
  from heap_blob [OF this] show ?thesis by simp
next
  case (OnVM c)
  with assms have "run_vm VB L e t c w = Inr (r, w')" by simp
  from heap_vm [OF this] show ?thesis by simp
qed

lemma heap_kept:
  assumes "run VB L e t op w = Inr (r, w')" and "\<not> allocating op"
  shows "heap w' = heap w"
proof (cases op)
  case (OnConnection c)
  with assms(1) have "run_connection VB L e t c w = Inr (r, w')" by simp
  from heap_connection [OF this] assms(2) show ?thesis
    unfolding OnConnection by (cases c) simp_all
next
  case (OnResult c)
  with assms have "run_result VB L e t c w = Inr (r, w')" by simp
  from heap_result [OF this] show ?thesis .
next
  case (OnBlob c)
  with assms have "run_blob VB L e t c w = Inr (r, w')" by simp
  from heap_blob [OF this] show ?thesis .
next
  case (OnVM c)
  with assms have "run_vm VB L e t c w = Inr (r, w')" by simp
  from heap_vm [OF this] show ?thesis .
qed

text \<open>
  C3, as amended.  The bridge has no global or static state, and every exported function
  other than \<open>setPubSubCallback\<close> and \<open>executeArrayCommand\<close> leaves the bridge's own heap as
  it found it.  \<open>setPubSubCallback\<close> allocates one PubSubData holding \<^verbatim>\<open>env\<close> and
  \<^verbatim>\<open>thiz\<close>, hands its address to \<^verbatim>\<open>SQCloudSetPubSubCallback\<close> as the callback's data and
  never releases it: that record outlives the call.
\<close>

theorem state_kept_only_by_registration:
  "(run VALUE_BLOB L jni_env this op w = Inr (r, w') \<and> \<not> allocating op \<longrightarrow> heap w' = heap w) \<and>
   setPubSubCallback jni_env this w =
     \<lparr> trace = trace w @ [Native ''SQCloudSetPubSubCallback''
                            [APtr (getConnection this), AFunction PubSubCallbackFn,
                             APtr (Suc (length (heap w)))]],
       heap = heap w @ [NewPubSubData \<lparr> env = jni_env, thiz = this \<rparr>] \<rparr>"
  using heap_kept [of VALUE_BLOB L jni_env this op w r w']
  by (simp add: setPubSubCallback_def call_defs alloc_def)

theorem state_kept_only_by_registration_witness:
  "run 4 failing_library 0 connected (OnConnection (ExecuteCommand (Some [0x3F]))) fresh_world =
     Inr (JObjectV (DirectByteBuffer 4096 8),
          emit (Native ''SQCloudExec'' [APtr 4096, AStr (Some [0x3F])]) fresh_world) \<and>
   \<not> allocating (OnConnection (ExecuteCommand (Some [0x3F]))) \<and>
   heap (emit (Native ''SQCloudExec'' [APtr 4096, AStr (Some [0x3F])]) fresh_world) =
     heap fresh_world"
  using state_kept_only_by_registration
    [of 4 failing_library 0 connected "OnConnection (ExecuteCommand (Some [0x3F]))" fresh_world
        "JObjectV (DirectByteBuffer 4096 8)"
        "emit (Native ''SQCloudExec'' [APtr 4096, AStr (Some [0x3F])]) fresh_world"]
  by (simp add: executeCommand_def call_defs Let_def failing_library_def connected_def
        getConnection_def wrapPointer_def NewDirectByteBuffer_def sizeof_void_ptr_def
        GetStringUTFChars_def mutf8_unit_def)

text \<open>
  The claim as stated fails: after \<open>setPubSubCallback\<close> the bridge's heap holds a block it
  did not hold before.
\<close>

theorem statelessness_counterexample:
  "\<not> (\<forall>op r w'. run 4 failing_library 0 connected op fresh_world = Inr (r, w') \<longrightarrow>
         heap w' = heap fresh_world)"
proof
  assume "\<forall>op r w'. run 4 failing_library 0 connected op fresh_world = Inr (r, w') \<longrightarrow>
            heap w' = heap fresh_world"
  moreover have "run 4 failing_library 0 connected (OnConnection SetPubSubCallback) fresh_world =
      Inr (JVoid, setPubSubCallback 0 connected fresh_world)"
    by simp
  ultimately have "heap (setPubSubCallback 0 connected fresh_world) = heap fresh_world"
    by blast
  then show False
    by (simp add: setPubSubCallback_def call_defs alloc_def)
qed

subsection \<open>Blob offsets and lengths\<close>

lemma fixed_vm:
  "run_vm VB L e t op w = Inr (r, w') \<Longrightarrow>
   \<forall>ev \<in> set (new_events w w'). fixed_blob_arguments ev"
  by (cases op)
     (auto simp: vm_defs call_defs new_events_def Let_def split_def split: if_splits)

lemma fixed_blob:
  "run_blob VB L e t op w = Inr (r, w') \<Longrightarrow>
   \<forall>ev \<in> set (new_events w w'). fixed_blob_arguments ev"
  by (cases op) (auto simp: blob_defs call_defs new_events_def Let_def split_def)

lemma fixed_result:
  "run_result VB L e t op w = Inr (r, w') \<Longrightarrow>
   \<forall>ev \<in> set (new_events w w'). fixed_blob_arguments ev"
  by (cases op) (auto simp: result_defs call_defs new_events_def Let_def split_def)

lemma fixed_connection:
  assumes "run_connection VB L e t op w = Inr (r, w')"
  shows "\<forall>ev \<in> set (new_events w w'). fixed_blob_arguments ev"
proof (cases op)
  case (ExecuteArrayCommand q ps ts)
  with assms show ?thesis
    by (auto simp: executeArrayCommand_def call_defs alloc_def new_events_def Let_def split_def
             split: option.splits sum.splits)
next
  case DoConnect
  with assms show ?thesis
    by (auto simp: doConnect_def call_defs new_events_def Let_def split_def)
qed (use assms in \<open>auto simp: connection_defs call_defs alloc_def new_events_def Let_def
                     split_def split: if_splits\<close>)

lemma fixed_run:
  "run VB L e t op w = Inr (r, w') \<Longrightarrow>
   \<forall>ev \<in> set (new_events w w'). fixed_blob_arguments ev"
  by (cases op) (simp_all add: fixed_connection fixed_result fixed_blob fixed_vm)

text \<open>
  C10.  \<open>readBlob\<close> and \<open>writeBlob\<close> call the native read and write with the address of the
  direct buffer, its whole capacity as the length, and offset 0; \<open>vmBindZeroBlob\<close> binds a
  zero blob of length 0.  No call of any exported function reaches these three native
  functions with another last argument.
\<close>

theorem blob_arguments_fixed:
  "snd (readBlob L handle (DirectByteBuffer address capacity) w) =
     emit (Native ''SQCloudBlobRead''
             [APtr (unwrapBlob handle), APtr address, ALong capacity, AInt 0]) w \<and>
   snd (writeBlob L handle (DirectByteBuffer address capacity) w) =
     emit (Native ''SQCloudBlobWrite''
             [APtr (unwrapBlob handle), APtr address, ALong capacity, AInt 0]) w \<and>
   snd (vmBindZeroBlob L wrappedVM row_index w) =
     emit (Native ''SQCloudVMBindZeroBlob''
             [APtr (unwrapVM wrappedVM), AInt row_index, AInt 0]) w \<and>
   (\<forall>r w'. run VALUE_BLOB L jni_env this op w = Inr (r, w') \<longrightarrow>
      (\<forall>ev \<in> set (new_events w w'). fixed_blob_arguments ev))"
  using fixed_run [of VALUE_BLOB L jni_env this op w]
  by (simp add: readBlob_def writeBlob_def vmBindZeroBlob_def call_defs)

theorem blob_arguments_fixed_witness:
  "run 4 failing_library 0 connected
       (OnBlob (ReadBlob (DirectByteBuffer 8192 8) (DirectByteBuffer 12288 100))) fresh_world =
     Inr (JIntV 7,
          emit (Native ''SQCloudBlobRead'' [APtr 8192, APtr 12288, ALong 100, AInt 0])
            fresh_world) \<and>
   fixed_blob_arguments (Native ''SQCloudBlobRead'' [APtr 8192, APtr 12288, ALong 100, AInt 0])"
  using blob_arguments_fixed
    [of failing_library "DirectByteBuffer 8192 8" 12288 100 fresh_world JNull 0 4 0 connected
        "OnBlob (ReadBlob (DirectByteBuffer 8192 8) (DirectByteBuffer 12288 100))"]
  by (simp add: readBlob_def call_defs unwrap_defs failing_library_def new_events_def
        fresh_world_def)

subsection \<open>The error accessors\<close>

lemma NewStringUTF_None: "NewStringUTF s = None \<longleftrightarrow> s = None"
  by (cases s) simp_all

text \<open>
  C4, as amended.  Each of \<open>errorCode\<close>, \<open>errorMessage\<close>, \<open>extendedErrorCode\<close> and
  \<open>errorOffset\<close> asks \<^verbatim>\<open>SQCloudIsError\<close> on the current connection.  When the answer is
  false it returns the null reference and calls nothing else; when it is true it returns
  the boxed \<^verbatim>\<open>SQCloudErrorCode\<close>, the string \<^verbatim>\<open>NewStringUTF\<close> makes of
  \<^verbatim>\<open>SQCloudErrorMsg\<close>, the boxed \<^verbatim>\<open>SQCloudExtendedErrorCode\<close> and the boxed
  \<^verbatim>\<open>SQCloudErrorOffset\<close>.  So the three boxed results are null exactly when
  \<^verbatim>\<open>SQCloudIsError\<close> is false, and the message is null exactly when
  \<^verbatim>\<open>SQCloudIsError\<close> is false or \<^verbatim>\<open>SQCloudErrorMsg\<close> returns NULL.  The bridge
  writes nothing: the world changes by these read calls on the connection only.
\<close>

theorem error_accessors:
  "(let conn = getConnection this;
        is_error = ret_bool L (trace w) ''SQCloudIsError'' [APtr conn];
        w1 = emit (Native ''SQCloudIsError'' [APtr conn]) w
    in
      errorCode L this w =
        (if is_error
         then (NewInteger (ret_int L (trace w1) ''SQCloudErrorCode'' [APtr conn]),
               emit (Native ''SQCloudErrorCode'' [APtr conn]) w1)
         else (JNull, w1)) \<and>
      errorMessage L this w =
        (if is_error
         then (NewStringUTF (ret_str L (trace w1) ''SQCloudErrorMsg'' [APtr conn]),
               emit (Native ''SQCloudErrorMsg'' [APtr conn]) w1)
         else (None, w1)) \<and>
      extendedErrorCode L this w =
        (if is_error
         then (NewInteger (ret_int L (trace w1) ''SQCloudExtendedErrorCode'' [APtr conn]),
               emit (Native ''SQCloudExtendedErrorCode'' [APtr conn]) w1)
         else (JNull, w1)) \<and>
      errorOffset L this w =
        (if is_error
         then (NewInteger (ret_int L (trace w1) ''SQCloudErrorOffset'' [APtr conn]),
               emit (Native ''SQCloudErrorOffset'' [APtr conn]) w1)
         else (JNull, w1)) \<and>
      (fst (errorCode L this w) = JNull \<longleftrightarrow> \<not> is_error) \<and>
      (fst (extendedErrorCode L this w) = JNull \<longleftrightarrow> \<not> is_error) \<and>
      (fst (errorOffset L this w) = JNull \<longleftrightarrow> \<not> is_error) \<and>
      (fst (errorMessage L this w) = None \<longleftrightarrow>
         \<not> is_error \<or> ret_str L (trace w1) ''SQCloudErrorMsg'' [APtr conn] = None) \<and>
      heap (snd (errorCode L this w)) = heap w \<and>
      heap (snd (errorMessage L this w)) = heap w \<and>
      heap (snd (extendedErrorCode L this w)) = heap w \<and>
      heap (snd (errorOffset L this w)) = heap w)"
  by (auto simp: errorCode_def errorMessage_def extendedErrorCode_def errorOffset_def
        call_defs Let_def NewInteger_def NewStringUTF_None)

theorem error_accessors_witness:
  "ret_str failing_library
     (trace (emit (Native ''SQCloudIsError'' [APtr 4096]) fresh_world))
     ''SQCloudErrorMsg'' [APtr 4096] \<noteq> None \<and>
   ret_bool failing_library (trace fresh_world) ''SQCloudIsError'' [APtr 4096] \<and>
   errorMessage failing_library connected fresh_world =
     (Some [0x62, 0x61, 0x64],
      \<lparr> trace = [Native ''SQCloudIsError'' [APtr 4096], Native ''SQCloudErrorMsg'' [APtr 4096]],
        heap = [] \<rparr>) \<and>
   errorCode failing_library connected fresh_world =
     (JInteger 7,
      \<lparr> trace = [Native ''SQCloudIsError'' [APtr 4096], Native ''SQCloudErrorCode'' [APtr 4096]],
        heap = [] \<rparr>) \<and>
   errorMessage quiet_library connected fresh_world =
     (None, \<lparr> trace = [Native ''SQCloudIsError'' [APtr 4096]], heap = [] \<rparr>)"
  using error_accessors [of connected failing_library fresh_world]
    error_accessors [of connected quiet_library fresh_world]
  by (simp add: Let_def failing_library_def quiet_library_def connected_def fresh_world_def
        getConnection_def emit_def NewInteger_def)

text \<open>
  The claim as stated fails for \<open>errorMessage\<close>: against a library that reports an error
  and returns NULL from \<^verbatim>\<open>SQCloudErrorMsg\<close> the result is the null reference although
  \<^verbatim>\<open>SQCloudIsError\<close> is true.
\<close>

theorem error_message_counterexample:
  "\<not> (fst (errorMessage mute_library connected fresh_world) = None \<longleftrightarrow>
        \<not> ret_bool mute_library (trace fresh_world) ''SQCloudIsError''
            [APtr (getConnection connected)])"
  by (simp add: errorMessage_def call_defs Let_def mute_library_def)

subsection \<open>Connecting\<close>

text \<open>
  C5, as amended.  \<open>doConnect\<close> builds a configuration whose nine boolean flags are the
  corresponding jboolean arguments cast to bool, whose five integer fields are the
  corresponding jint arguments, and whose string fields are the converted strings, NULL
  exactly when the host passed null.  It calls \<^verbatim>\<open>SQCloudConnect\<close> with the converted host
  name, the port and that configuration, and returns the null reference if the call
  returned NULL and a box of the returned pointer otherwise.
\<close>

theorem doConnect_marshals:
  "\<exists>config.
     doConnect L hostname port a_username a_password a_database a_timeout a_family
       a_compression a_sqlite_mode a_zero_text a_password_hashed a_nonlinearizable a_db_memory
       a_no_blob a_db_create a_max_data a_max_rows a_max_rowset
       a_tls_root_certificate a_tls_certificate a_tls_certificate_key a_insecure w =
       (let args = [AStr (cString hostname), AInt port, AConfig config];
            conn = ret_ptr L (trace w) ''SQCloudConnect'' args
        in (if conn = 0 then JNull else DirectByteBuffer conn (of_nat sizeof_void_ptr),
            emit (Native ''SQCloudConnect'' args) w)) \<and>
     config_flags config =
       map static_cast_bool
         [a_compression, a_sqlite_mode, a_zero_text, a_password_hashed, a_nonlinearizable,
          a_db_memory, a_no_blob, a_db_create, a_insecure] \<and>
     [timeout config, family config, max_data config, max_rows config, max_rowset config] =
       [a_timeout, a_family, a_max_data, a_max_rows, a_max_rowset] \<and>
     [username config, password config, database config, tls_root_certificate config,
      tls_certificate config, tls_certificate_key config] =
       map cString [a_username, a_password, a_database, a_tls_root_certificate,
                    a_tls_certificate, a_tls_certificate_key] \<and>
     (database config = None \<longleftrightarrow> a_database = None) \<and>
     (tls_root_certificate config = None \<longleftrightarrow> a_tls_root_certificate = None) \<and>
     (tls_certificate config = None \<longleftrightarrow> a_tls_certificate = None) \<and>
     (tls_certificate_key config = None \<longleftrightarrow> a_tls_certificate_key = None)"
proof -
  have null_iff: "cString s = None \<longleftrightarrow> s = None" for s
    by (cases s) simp_all
  have guarded: "(if s \<noteq> None then cString s else None) = cString s" for s
    by (cases s) simp_all
  let ?config = "\<lparr>
      username = cString a_username, password = cString a_password,
      database = cString a_database, timeout = a_timeout, family = a_family,
      compression = static_cast_bool a_compression,
      sqlite_mode = static_cast_bool a_sqlite_mode,
      zero_text = static_cast_bool a_zero_text,
      password_hashed = static_cast_bool a_password_hashed,
      nonlinearizable = static_cast_bool a_nonlinearizable,
      db_memory = static_cast_bool a_db_memory,
      no_blob = static_cast_bool a_no_blob,
      db_create = static_cast_bool a_db_create,
      max_data = a_max_data, max_rows = a_max_rows, max_rowset = a_max_rowset,
      tls_root_certificate = cString a_tls_root_certificate,
      tls_certificate = cString a_tls_certificate,
      tls_certificate_key = cString a_tls_certificate_key,
      insecure = static_cast_bool a_insecure \<rparr>"
  show ?thesis
    by (rule exI [of _ ?config])
       (simp add: doConnect_def Let_def call_defs wrapPointer_def NewDirectByteBuffer_def
          config_flags_def guarded null_iff)
qed

theorem doConnect_marshals_witness:
  "\<exists>config.
     doConnect failing_library (Some [0x68]) 8860 None None None 10 0 1 0 0 0 0 0 0 1 0 0 0
       None None None 0 fresh_world =
       (DirectByteBuffer 4096 8,
        emit (Native ''SQCloudConnect'' [AStr (Some [0x68]), AInt 8860, AConfig config])
          fresh_world) \<and>
     config_flags config = [True, False, False, False, False, False, False, True, False] \<and>
     timeout config = 10 \<and> database config = None"
proof -
  from doConnect_marshals
    [of failing_library "Some [0x68]" 8860 None None None 10 0 1 0 0 0 0 0 0 1 0 0 0
        None None None 0 fresh_world]
  obtain config where
    "doConnect failing_library (Some [0x68]) 8860 None None None 10 0 1 0 0 0 0 0 0 1 0 0 0
       None None None 0 fresh_world =
       (let args = [AStr (cString (Some [0x68])), AInt 8860, AConfig config];
            conn = ret_ptr failing_library (trace fresh_world) ''SQCloudConnect'' args
        in (if conn = 0 then JNull else DirectByteBuffer conn (of_nat sizeof_void_ptr),
            emit (Native ''SQCloudConnect'' args) fresh_world))"
    and "config_flags config = map static_cast_bool [1, 0, 0, 0, 0, 0, 0, 1, 0]"
    and "[timeout config, family config, max_data config, max_rows config, max_rowset config] =
         [10, 0, 0, 0, 0]"
    and "database config = None \<longleftrightarrow> (None :: jstring) = None"
    by blast
  then show ?thesis
    by (intro exI [of _ config])
       (simp add: Let_def failing_library_def sizeof_void_ptr_def static_cast_bool_def
          GetStringUTFChars_def mutf8_unit_def)
qed

text \<open>
  The claim as stated fails on the number of flags: the configuration \<open>doConnect\<close> builds
  has nine boolean flags set from jboolean arguments, not thirteen.
\<close>

theorem doConnect_flags_counterexample:
  "\<not> (\<exists>config.
         snd (doConnect failing_library (Some [0x68]) 8860 None None None 10 0 1 0 0 0 0 0 0 1
                0 0 0 None None None 0 fresh_world) =
           emit (Native ''SQCloudConnect'' [AStr (Some [0x68]), AInt 8860, AConfig config])
             fresh_world \<and>
         length (config_flags config) = 13)"
  by (simp add: config_flags_def)

subsection \<open>Events\<close>

lemma pubSubCallback_heap:
  "pubSubCallback ctx conn result data w = Inr w' \<Longrightarrow> heap w' = heap w"
  by (auto simp: pubSubCallback_def emit_def Let_def
           split: option.splits block.splits if_splits)

lemma run_all_heap:
  "run_all VB L later w = Some w' \<Longrightarrow> \<exists>bs. heap w' = heap w @ bs"
proof (induction later arbitrary: w)
  case Nil
  then show ?case by simp
next
  case (Cons a later)
  show ?case
  proof (cases a)
    case (Call e t op)
    with Cons.prems obtain r w1 where
      step: "run VB L e t op w = Inr (r, w1)" and rest: "run_all VB L later w1 = Some w'"
      by (auto split: sum.splits)
    from heap_grows [OF step] obtain bs where "heap w1 = heap w @ bs" by blast
    moreover from Cons.IH [OF rest] obtain cs where "heap w' = heap w1 @ cs" by blast
    ultimately show ?thesis by simp
  next
    case (Deliver te c r d)
    with Cons.prems obtain w1 where
      step: "pubSubCallback \<lparr> current_env = te, live_frames = [] \<rparr> c r d w = Inr w1"
      and rest: "run_all VB L later w1 = Some w'"
      by (auto split: sum.splits)
    from pubSubCallback_heap [OF step] have "heap w1 = heap w" .
    moreover from Cons.IH [OF rest] obtain cs where "heap w' = heap w1 @ cs" by blast
    ultimately show ?thesis by simp
  qed
qed

lemma deref_kept:
  "deref w p = Some b \<Longrightarrow> heap w' = heap w @ bs \<Longrightarrow> deref w' p = Some b"
  by (auto simp: deref_def nth_append split: if_splits)

lemma registered:
  "deref (setPubSubCallback jni_env this w) (Suc (length (heap w))) =
     Some (NewPubSubData \<lparr> env = jni_env, thiz = this \<rparr>)"
  by (simp add: setPubSubCallback_def call_defs alloc_def deref_def)

text \<open>
  What the trampoline does with the datum of a registration, in any world reached from the
  registration and in any context: the one upcall the claim describes if the context is the
  registering thread still inside the registering call, a fault otherwise.
\<close>

lemma pubSubCallback_registered:
  assumes "run_all VB L later (setPubSubCallback jni_env this w) = Some w2"
  shows "pubSubCallback ctx conn result (Suc (length (heap w))) w2 =
    (if current_env ctx \<noteq> jni_env then Inl StaleJNIEnv
     else if local_frame this \<notin> set (live_frames ctx) then Inl StaleLocalReference
     else Inr (emit (CallVoidMethod this ''pubSubCallback'' ''(Ljava/nio/ByteBuffer;)V''
                       [wrapPointer result]) w2))"
proof -
  from run_all_heap [OF assms] obtain bs where
    "heap w2 = heap (setPubSubCallback jni_env this w) @ bs" by blast
  from deref_kept [OF registered this] show ?thesis
    by (auto simp: pubSubCallback_def)
qed

text \<open>
  After the registering call has returned no delivery reaches the host: every run that
  contains a delivery to the registered datum ends in a fault.
\<close>

lemma delivery_after_return_faults:
  assumes "run_all VB L later (setPubSubCallback jni_env this w) = Some w2"
  shows "run_all VB L [Deliver thread_env conn result (Suc (length (heap w)))] w2 = None"
  using pubSubCallback_registered
    [OF assms, of "\<lparr> current_env = thread_env, live_frames = [] \<rparr>" conn result]
  by simp

text \<open>
  C8 at a delivery after the registration.  \<open>setPubSubCallback\<close>, called on thread 1024 in
  frame 1, registers the trampoline with the address of a PubSubData that holds the
  \<^verbatim>\<open>JNIEnv *\<close> of that thread and the local reference \<^verbatim>\<open>thiz\<close> of that call.  When
  the library then delivers an event, the trampoline uses a \<^verbatim>\<open>JNIEnv *\<close> of another
  thread if it runs on the library's thread, and a local reference whose call has returned
  if it runs on the registering thread: the method of the host object is not called.
\<close>

theorem pubsub_delivery_stale:
  "setPubSubCallback 1024 connected fresh_world =
     \<lparr> trace = [Native ''SQCloudSetPubSubCallback''
                   [APtr 4096, AFunction PubSubCallbackFn, APtr 1]],
       heap = [NewPubSubData \<lparr> env = 1024, thiz = connected \<rparr>] \<rparr> \<and>
   pubSubCallback \<lparr> current_env = 2048, live_frames = [] \<rparr> 4096 12288 1
     (setPubSubCallback 1024 connected fresh_world) = Inl StaleJNIEnv \<and>
   pubSubCallback \<lparr> current_env = 1024, live_frames = [] \<rparr> 4096 12288 1
     (setPubSubCallback 1024 connected fresh_world) = Inl StaleLocalReference \<and>
   run_all 4 failing_library
     [Call 1024 connected (OnConnection SetPubSubCallback), Deliver 2048 4096 12288 1]
     fresh_world = None"
  by (simp add: setPubSubCallback_def pubSubCallback_def call_defs alloc_def deref_def
        getConnection_def connected_def fresh_world_def)

subsection \<open>Array commands\<close>

text \<open>
  C6 at a text parameter outside ASCII.  The string of the single code unit U+00E9 is
  passed as the two bytes C3 A9 of its UTF conversion, with length 1: the number of UTF-16
  code units \<^verbatim>\<open>GetStringLength\<close> returns, not the number of bytes.
\<close>

theorem executeArrayCommand_text_length:
  "executeArrayCommand 4 failing_library connected (Some [0x3F]) (Some [JString [0xE9]])
     (Some [3]) fresh_world =
     Inr (DirectByteBuffer 4096 8,
          \<lparr> trace =
              [Native ''SQCloudExecArray''
                 [APtr 4096, AStr (Some [0x3F]), AValues [UTFChars (Some [0xC3, 0xA9])],
                  ALengths [1], ATypes [3], AUInt32 1]],
            heap = [Calloc 1 8, Calloc 1 4] \<rparr>) \<and>
   length (GetStringUTFChars [0xE9]) = 2"
  by (simp add: executeArrayCommand_def fillParams.simps GetObjectArrayElement_def
        GetStringLength_def GetStringUTFChars_def mutf8_unit_def call_defs alloc_def
        wrapPointer_def NewDirectByteBuffer_def sizeof_void_ptr_def sizeof_uint32_def
        getConnection_def connected_def fresh_world_def failing_library_def Let_def)

end
